theory Spec2Isabelle
  imports Complex_Main "HOL-Library.Char_ord" "HOL-Library.List_Lexorder"
begin

section \<open>Strings\<close>

text \<open>
  Python strings are modelled as \<open>string\<close>. Three operations of the language and of the
  database engine on strings are needed: \<open>str.split(sep)\<close>, the decimal rendering of an
  integer inside an f-string, and the engine's case-insensitive pattern match \<open>ILIKE\<close>.
\<close>

text \<open>
  \<open>s.split(sep)\<close> with an explicit one-character separator: every occurrence of the
  separator cuts, empty pieces are kept, and the empty string gives one empty piece.
\<close>

fun split_str :: "char \<Rightarrow> string \<Rightarrow> string list" where
  "split_str sep [] = [[]]"
| "split_str sep (c # cs) =
     (if c = sep then [] # split_str sep cs
      else (case split_str sep cs of [] \<Rightarrow> [[c]] | w # ws \<Rightarrow> (c # w) # ws))"

text \<open>The text of an integer as an f-string renders it: decimal digits, a minus sign first.\<close>

fun str_nat :: "nat \<Rightarrow> string" where
  "str_nat n =
     (if n < 10 then [''0123456789'' ! n]
      else str_nat (n div 10) @ [''0123456789'' ! (n mod 10)])"

definition str_int :: "int \<Rightarrow> string" where
  "str_int i = (if i < 0 then CHR ''-'' # str_nat (nat (- i)) else str_nat (nat i))"

text \<open>
  Case folding of \<open>ILIKE\<close>. The engine folds by the locale of the database, which is
  not among the sources; \<open>lower_char\<close> is the folding of the ASCII letters, on which the
  usual locales agree, and leaves every other character (a byte here) as it is. What
  is proved about searching below is therefore stated for ASCII texts only.
\<close>

definition lower_char :: "char \<Rightarrow> char" where
  "lower_char c =
     (let n = (of_char c :: nat) in if 65 \<le> n \<and> n \<le> 90 then char_of (n + 32) else c)"

definition lower :: "string \<Rightarrow> string" where
  "lower s = map lower_char s"

text \<open>
  The engine's \<open>LIKE\<close>: in the pattern \<open>%\<close> stands for any run of characters, \<open>_\<close> for
  any one character, and a backslash (the default escape character, no \<open>ESCAPE\<close> clause
  being given by the caller) makes the next pattern character literal. A pattern that
  ends in a lone backslash matches nothing here (the engine rejects it; the patterns
  built below always end in \<open>%\<close>, so a lone final backslash cannot occur).
\<close>

fun like_match :: "string \<Rightarrow> string \<Rightarrow> bool" where
  "like_match [] s = (s = [])"
| "like_match (p # ps) s =
     (if p = CHR ''%'' then
        (like_match ps s \<or> (case s of [] \<Rightarrow> False | c # cs \<Rightarrow> like_match (p # ps) cs))
      else if p = CHR ''_'' then
        (case s of [] \<Rightarrow> False | c # cs \<Rightarrow> like_match ps cs)
      else if p = CHR 0x5C then
        (case ps of [] \<Rightarrow> False
         | q # qs \<Rightarrow> (case s of [] \<Rightarrow> False | c # cs \<Rightarrow> c = q \<and> like_match qs cs))
      else
        (case s of [] \<Rightarrow> False | c # cs \<Rightarrow> c = p \<and> like_match ps cs))"

definition ilike_match :: "string \<Rightarrow> string \<Rightarrow> bool" where
  "ilike_match pat s = like_match (lower pat) (lower s)"

section \<open>Column values and their order\<close>

text \<open>
  A column holds an integer, a number, a date (its day number), a text or \<open>NULL\<close>.
  \<open>val_le coll\<close> is the order \<open>ORDER BY\<close> sorts by: the order of the column's type,
  \<open>NULL\<close> above every value (so last ascending, first descending). Texts are compared
  by the collation of the database, which the sources do not fix: \<open>coll\<close> gives each text
  its sort key under that collation (as \<open>strxfrm\<close> does), and texts are ordered as their
  keys are, character by character; it is a field of the database below. Values of one
  column share a type; across types the order of the constructors is used.
\<close>

datatype val = VInt int | VNum rat | VDate int | VText string | VNull

fun val_rank :: "val \<Rightarrow> nat" where
  "val_rank (VInt _) = 0"
| "val_rank (VNum _) = 1"
| "val_rank (VDate _) = 2"
| "val_rank (VText _) = 3"
| "val_rank VNull = 4"

fun val_le :: "(string \<Rightarrow> string) \<Rightarrow> val \<Rightarrow> val \<Rightarrow> bool" where
  "val_le coll (VInt a) (VInt b) = (a \<le> b)"
| "val_le coll (VNum a) (VNum b) = (a \<le> b)"
| "val_le coll (VDate a) (VDate b) = (a \<le> b)"
| "val_le coll (VText a) (VText b) = (coll a \<le> coll b)"
| "val_le coll a b = (val_rank a \<le> val_rank b)"

definition opt_text :: "string option \<Rightarrow> val" where
  "opt_text x = (case x of None \<Rightarrow> VNull | Some s \<Rightarrow> VText s)"

definition opt_date :: "int option \<Rightarrow> val" where
  "opt_date x = (case x of None \<Rightarrow> VNull | Some d \<Rightarrow> VDate d)"

definition opt_num :: "rat option \<Rightarrow> val" where
  "opt_num x = (case x of None \<Rightarrow> VNull | Some q \<Rightarrow> VNum q)"

text \<open>
  Sorting by a comparison: insertion from the right, so rows that compare equal keep
  the order in which they arrive.
\<close>

fun insort_by :: "('a \<Rightarrow> 'a \<Rightarrow> bool) \<Rightarrow> 'a \<Rightarrow> 'a list \<Rightarrow> 'a list" where
  "insort_by le x [] = [x]"
| "insort_by le x (y # ys) = (if le x y then x # y # ys else y # insort_by le x ys)"

definition sort_by :: "('a \<Rightarrow> 'a \<Rightarrow> bool) \<Rightarrow> 'a list \<Rightarrow> 'a list" where
  "sort_by le xs = foldr (insort_by le) xs []"

text \<open>The integer types of the engine and their ranges.\<close>

datatype int_type = SmallInt | Integer | BigInt

fun int_bits :: "int_type \<Rightarrow> nat" where
  "int_bits SmallInt = 16"
| "int_bits Integer = 32"
| "int_bits BigInt = 64"

definition in_int_range :: "int_type \<Rightarrow> int \<Rightarrow> bool" where
  "in_int_range t n = (- (2 ^ (int_bits t - 1)) \<le> n \<and> n < 2 ^ (int_bits t - 1))"

section \<open>Tables and rows\<close>

text \<open>
  Modelled from the spec: the module \<open>data.models\<close> (the mapped classes
  \<open>ContractCompany\<close>, \<open>Vendor\<close>, \<open>Sow\<close>, \<open>Invoice\<close>), \<open>app.models\<close> and the schema of the
  database are not among the sources. The rows carry the identifier and the fields that
  the data-model table of the specification and the schema files \<open>company.py\<close> and
  \<open>sows.py\<close> name; the required name fields are texts, every other field may be \<open>NULL\<close>;
  the two documents (\<open>extra_metadata\<close>, \<open>details\<close>) are carried as their text.

  A table is the list of its rows in the order in which the engine hands them to the
  query at hand. The engine is free to hand the same rows to the next query in another
  order: two calls over one unchanged collection see tables with the same rows, not
  necessarily the same list (\<open>same_collection\<close> below). The database also carries what
  the schema and the settings of the engine decide: the collation \<open>collation_key\<close> by
  which texts are compared, and the integer type of the column \<open>invoices.id\<close>.
\<close>

record company =
  co_id :: int
  co_company_name :: string
  co_address :: "string option"
  co_contact_person :: "string option"
  co_contact_email :: "string option"
  co_extra_metadata :: "string option"

record vendor =
  ve_id :: int
  ve_name :: string
  ve_address :: "string option"
  ve_contact_name :: "string option"
  ve_contact_email :: "string option"
  ve_contact_phone :: "string option"
  ve_contact_type :: "string option"

record sow =
  sw_id :: int
  sw_sow_title :: string
  sw_start_date :: "int option"
  sw_end_date :: "int option"
  sw_budget :: "rat option"
  sw_sow_document :: "string option"
  sw_details :: "string option"

record invoice =
  in_id :: int
  in_invoice_number :: "string option"
  in_payment_status :: "string option"

record database =
  companies :: "company list"
  vendors :: "vendor list"
  sows :: "sow list"
  invoices :: "invoice list"
  collation_key :: "string \<Rightarrow> string"
  invoice_id_type :: int_type

section \<open>Errors\<close>

datatype error =
    AttributeError string
  | ValueError string
  | DataError string
  | SQLAlchemyError string
  | HTTPException int string

section \<open>The query interface\<close>

text \<open>
  The query objects of the ORM library, the database drivers and the engine behind
  them are not code of the repository; the model gives each call of the source the
  meaning of the SQL it stands for.

  A criterion of \<open>filter\<close> is a three-valued condition on a row (\<open>None\<close> for SQL's
  unknown) together with the texts it binds as values. An attribute of a mapped class
  either can stand in \<open>ORDER BY\<close> (a column, or another attribute that the library
  turns into a sort expression) or makes \<open>asc\<close>, \<open>desc\<close> or the compilation of the
  query raise an error. A query object is a description that is built step by step
  and run by \<open>all\<close> or \<open>first\<close>: the table, the criteria, the \<open>ORDER BY\<close> criterion,
  \<open>OFFSET\<close> and \<open>LIMIT\<close>.
\<close>

datatype 'r criterion = Criterion (bound_params: "string list") (holds: "'r \<Rightarrow> bool option")

datatype 'r attribute = SortKey "'r \<Rightarrow> val" | NotSortKey error

datatype 'r ordering = Asc "'r \<Rightarrow> val" | Desc "'r \<Rightarrow> val"

record 'r mapped_class =
  table_rows :: "database \<Rightarrow> 'r list"
  columns :: "(string \<times> ('r \<Rightarrow> val)) list"
  other_attributes :: "(string \<times> 'r attribute) list"

record 'r query =
  from_rows :: "database \<Rightarrow> 'r list"
  whereclause :: "'r criterion list"
  order_by_clause :: "'r ordering option"
  offset_clause :: "int option"
  limit_clause :: "int option"

definition select_from :: "(database \<Rightarrow> 'r list) \<Rightarrow> 'r query" where
  "select_from tab =
     \<lparr>from_rows = tab, whereclause = [], order_by_clause = None,
      offset_clause = None, limit_clause = None\<rparr>"

definition session_query :: "'r mapped_class \<Rightarrow> 'r query" where
  "session_query cls = select_from (table_rows cls)"

definition query_filter :: "'r query \<Rightarrow> 'r criterion \<Rightarrow> 'r query" where
  "query_filter q c = q\<lparr>whereclause := whereclause q @ [c]\<rparr>"

definition query_order_by :: "'r query \<Rightarrow> 'r ordering \<Rightarrow> 'r query" where
  "query_order_by q ord = q\<lparr>order_by_clause := Some ord\<rparr>"

definition query_offset :: "'r query \<Rightarrow> int \<Rightarrow> 'r query" where
  "query_offset q n = q\<lparr>offset_clause := Some n\<rparr>"

definition query_limit :: "'r query \<Rightarrow> int \<Rightarrow> 'r query" where
  "query_limit q n = q\<lparr>limit_clause := Some n\<rparr>"

text \<open>
  \<open>getattr(cls, name)\<close>: the column of that name, else the other attribute of that
  name, else \<open>AttributeError\<close>.
\<close>

definition getattr :: "'r mapped_class \<Rightarrow> string \<Rightarrow> error + 'r attribute" where
  "getattr cls name =
     (case map_of (columns cls) name of
        Some col \<Rightarrow> Inr (SortKey col)
      | None \<Rightarrow>
          (case map_of (other_attributes cls) name of
             Some a \<Rightarrow> Inr a
           | None \<Rightarrow> Inl (AttributeError name)))"

text \<open>
  \<open>asc(attribute)\<close> and \<open>desc(attribute)\<close>: the \<open>ORDER BY\<close> criterion, or the error that
  ordering by this attribute raises (before any statement reaches the engine).
\<close>

fun asc :: "'r attribute \<Rightarrow> error + 'r ordering" where
  "asc (SortKey col) = Inr (Asc col)"
| "asc (NotSortKey e) = Inl e"

fun desc :: "'r attribute \<Rightarrow> error + 'r ordering" where
  "desc (SortKey col) = Inr (Desc col)"
| "desc (NotSortKey e) = Inl e"

text \<open>
  \<open>column.ilike(pattern)\<close> on a text column: the pattern is bound as a value; the
  condition is unknown on \<open>NULL\<close> and the pattern match on a text (the source applies it
  to text columns only).
\<close>

definition ilike :: "('r \<Rightarrow> val) \<Rightarrow> string \<Rightarrow> 'r criterion" where
  "ilike col pat =
     Criterion [pat]
       (\<lambda>r. case col r of
               VText s \<Rightarrow> Some (ilike_match pat s)
             | _ \<Rightarrow> None)"

text \<open>\<open>column == value\<close>: unknown on \<open>NULL\<close>.\<close>

definition col_eq :: "('r \<Rightarrow> val) \<Rightarrow> val \<Rightarrow> 'r criterion" where
  "col_eq col v =
     Criterion (case v of VText s \<Rightarrow> [s] | _ \<Rightarrow> [])
       (\<lambda>r. if col r = VNull \<or> v = VNull then None else Some (col r = v))"

text \<open>\<open>or_\<close> in SQL's three-valued logic: true if one operand is, else unknown if one is.\<close>

definition or_any :: "'r criterion list \<Rightarrow> 'r criterion" where
  "or_any cs =
     Criterion (concat (map bound_params cs))
       (\<lambda>r. if list_ex (\<lambda>c. holds c r = Some True) cs then Some True
             else if list_ex (\<lambda>c. holds c r = None) cs then None
             else Some False)"

fun ordering_le :: "(string \<Rightarrow> string) \<Rightarrow> 'r ordering \<Rightarrow> 'r \<Rightarrow> 'r \<Rightarrow> bool" where
  "ordering_le coll (Asc col) a b = val_le coll (col a) (col b)"
| "ordering_le coll (Desc col) a b = val_le coll (col b) (col a)"

text \<open>
  Running a \<open>SELECT\<close> of the ORM. The driver refuses a bound text with a NUL character
  (\<open>ValueError\<close>, before the statement is sent). The engine refuses an \<open>OFFSET\<close> or \<open>LIMIT\<close>
  outside the range of \<open>bigint\<close>, and a negative one. Otherwise the result is: the rows
  of the table on which every criterion is true, sorted if an order is given, then
  \<open>OFFSET\<close> and \<open>LIMIT\<close>.
\<close>

definition has_nul :: "string \<Rightarrow> bool" where
  "has_nul s = (CHR 0x00 \<in> set s)"

definition out_of_range :: "int option \<Rightarrow> bool" where
  "out_of_range x = (case x of None \<Rightarrow> False | Some n \<Rightarrow> \<not> in_int_range BigInt n)"

definition negative :: "int option \<Rightarrow> bool" where
  "negative x = (case x of None \<Rightarrow> False | Some n \<Rightarrow> n < 0)"

definition apply_offset :: "int option \<Rightarrow> 'r list \<Rightarrow> 'r list" where
  "apply_offset x rows = (case x of None \<Rightarrow> rows | Some k \<Rightarrow> drop (nat k) rows)"

definition apply_limit :: "int option \<Rightarrow> 'r list \<Rightarrow> 'r list" where
  "apply_limit x rows = (case x of None \<Rightarrow> rows | Some l \<Rightarrow> take (nat l) rows)"

definition run_select :: "'r query \<Rightarrow> database \<Rightarrow> error + 'r list" where
  "run_select q db =
     (if list_ex has_nul (concat (map bound_params (whereclause q))) then
        Inl (ValueError ''A string literal cannot contain NUL (0x00) characters.'')
      else if out_of_range (offset_clause q) \<or> out_of_range (limit_clause q) then
        Inl (DataError ''bigint out of range'')
      else if negative (offset_clause q) then
        Inl (DataError ''OFFSET must not be negative'')
      else if negative (limit_clause q) then
        Inl (DataError ''LIMIT must not be negative'')
      else
        (let rows = filter (\<lambda>r. list_all (\<lambda>c. holds c r = Some True) (whereclause q))
                      (from_rows q db);
             rows = (case order_by_clause q of
                       None \<Rightarrow> rows
                     | Some ord \<Rightarrow> sort_by (ordering_le (collation_key db) ord) rows)
         in Inr (apply_limit (limit_clause q) (apply_offset (offset_clause q) rows))))"

text \<open>
  \<open>all\<close> and \<open>first\<close> run the query against the database and hand the database back:
  a \<open>SELECT\<close> leaves every table as it is. \<open>first\<close> asks for one row.
\<close>

definition query_all :: "'r query \<Rightarrow> database \<Rightarrow> (error + 'r list) \<times> database" where
  "query_all q db = (run_select q db, db)"

definition query_first :: "'r query \<Rightarrow> database \<Rightarrow> (error + 'r option) \<times> database" where
  "query_first q db =
     (case run_select (query_limit q 1) db of
        Inl e \<Rightarrow> (Inl e, db)
      | Inr rows \<Rightarrow> (Inr (case rows of [] \<Rightarrow> None | r # _ \<Rightarrow> Some r), db))"

section \<open>The mapped classes\<close>

text \<open>
  Modelled from the spec: \<open>data.models\<close> is not among the sources. Each mapped class
  names its table and its columns, \<open>Class.column\<close> being the value of that column in a
  row; the columns are the identifier and the text, date and number fields that the
  specification and the schema files name. Whatever else a class has as attributes
  (those that Python and the ORM give every class, such as \<open>__doc__\<close> or
  \<open>__tablename__\<close>, the document columns, further columns or relationships) cannot be
  read off the sources: the CRUD functions take it as their first argument \<open>models\<close>,
  which lists for each class the further attribute names and what ordering by each
  of them does.
\<close>

record data_models =
  company_attributes :: "(string \<times> company attribute) list"
  vendor_attributes :: "(string \<times> vendor attribute) list"
  sow_attributes :: "(string \<times> sow attribute) list"
  invoice_attributes :: "(string \<times> invoice attribute) list"

definition ContractCompany_id :: "company \<Rightarrow> val" where
  "ContractCompany_id r = VInt (co_id r)"

definition ContractCompany_company_name :: "company \<Rightarrow> val" where
  "ContractCompany_company_name r = VText (co_company_name r)"

definition ContractCompany_address :: "company \<Rightarrow> val" where
  "ContractCompany_address r = opt_text (co_address r)"

definition ContractCompany_contact_person :: "company \<Rightarrow> val" where
  "ContractCompany_contact_person r = opt_text (co_contact_person r)"

definition ContractCompany_contact_email :: "company \<Rightarrow> val" where
  "ContractCompany_contact_email r = opt_text (co_contact_email r)"

definition ContractCompany :: "data_models \<Rightarrow> company mapped_class" where
  "ContractCompany models =
     \<lparr>table_rows = companies,
      columns =
       [(''id'', ContractCompany_id),
        (''company_name'', ContractCompany_company_name),
        (''address'', ContractCompany_address),
        (''contact_person'', ContractCompany_contact_person),
        (''contact_email'', ContractCompany_contact_email)],
      other_attributes = company_attributes models\<rparr>"

definition Vendor_id :: "vendor \<Rightarrow> val" where
  "Vendor_id r = VInt (ve_id r)"

definition Vendor_name :: "vendor \<Rightarrow> val" where
  "Vendor_name r = VText (ve_name r)"

definition Vendor_address :: "vendor \<Rightarrow> val" where
  "Vendor_address r = opt_text (ve_address r)"

definition Vendor_contact_name :: "vendor \<Rightarrow> val" where
  "Vendor_contact_name r = opt_text (ve_contact_name r)"

definition Vendor_contact_email :: "vendor \<Rightarrow> val" where
  "Vendor_contact_email r = opt_text (ve_contact_email r)"

definition Vendor_contact_phone :: "vendor \<Rightarrow> val" where
  "Vendor_contact_phone r = opt_text (ve_contact_phone r)"

definition Vendor_contact_type :: "vendor \<Rightarrow> val" where
  "Vendor_contact_type r = opt_text (ve_contact_type r)"

definition Vendor :: "data_models \<Rightarrow> vendor mapped_class" where
  "Vendor models =
     \<lparr>table_rows = vendors,
      columns =
       [(''id'', Vendor_id),
        (''name'', Vendor_name),
        (''address'', Vendor_address),
        (''contact_name'', Vendor_contact_name),
        (''contact_email'', Vendor_contact_email),
        (''contact_phone'', Vendor_contact_phone),
        (''contact_type'', Vendor_contact_type)],
      other_attributes = vendor_attributes models\<rparr>"

definition Sow_id :: "sow \<Rightarrow> val" where
  "Sow_id r = VInt (sw_id r)"

definition Sow_sow_title :: "sow \<Rightarrow> val" where
  "Sow_sow_title r = VText (sw_sow_title r)"

definition Sow_start_date :: "sow \<Rightarrow> val" where
  "Sow_start_date r = opt_date (sw_start_date r)"

definition Sow_end_date :: "sow \<Rightarrow> val" where
  "Sow_end_date r = opt_date (sw_end_date r)"

definition Sow_budget :: "sow \<Rightarrow> val" where
  "Sow_budget r = opt_num (sw_budget r)"

definition Sow_sow_document :: "sow \<Rightarrow> val" where
  "Sow_sow_document r = opt_text (sw_sow_document r)"

definition Sow :: "data_models \<Rightarrow> sow mapped_class" where
  "Sow models =
     \<lparr>table_rows = sows,
      columns =
       [(''id'', Sow_id),
        (''sow_title'', Sow_sow_title),
        (''start_date'', Sow_start_date),
        (''end_date'', Sow_end_date),
        (''budget'', Sow_budget),
        (''sow_document'', Sow_sow_document)],
      other_attributes = sow_attributes models\<rparr>"

definition Invoice_id :: "invoice \<Rightarrow> val" where
  "Invoice_id r = VInt (in_id r)"

definition Invoice_invoice_number :: "invoice \<Rightarrow> val" where
  "Invoice_invoice_number r = opt_text (in_invoice_number r)"

definition Invoice_payment_status :: "invoice \<Rightarrow> val" where
  "Invoice_payment_status r = opt_text (in_payment_status r)"

definition Invoice :: "data_models \<Rightarrow> invoice mapped_class" where
  "Invoice models =
     \<lparr>table_rows = invoices,
      columns =
       [(''id'', Invoice_id),
        (''invoice_number'', Invoice_invoice_number),
        (''payment_status'', Invoice_payment_status)],
      other_attributes = invoice_attributes models\<rparr>"

section \<open>The CRUD module\<close>

text \<open>
  Every function takes the imported module \<open>models\<close> and then the session's database,
  as the source takes \<open>db\<close>, and returns its result with the database as the call
  leaves it. A raised exception is \<open>Inl\<close>. \<open>if search:\<close> and \<open>if sortby:\<close> test
  truthiness: \<open>None\<close> and the empty string both skip the branch. Unpacking
  \<open>sortby.split(':')\<close> into two names raises \<open>ValueError\<close> unless there are exactly two
  parts, and the handler of the source catches exactly that: then the query stays as
  it was. \<open>getattr\<close>, \<open>asc\<close> and \<open>desc\<close> are evaluated inside the \<open>try\<close>; the errors
  they raise are no \<open>ValueError\<close>, so they leave the function. The \<open>ValueError\<close> of the
  driver for a NUL character is raised by \<open>all\<close>, outside the \<open>try\<close>.
\<close>

definition get_company ::
  "data_models \<Rightarrow> database \<Rightarrow> int \<Rightarrow> (error + company option) \<times> database" where
  "get_company models db company_id =
     query_first
       (query_filter (session_query (ContractCompany models)) (col_eq ContractCompany_id (VInt company_id)))
       db"

definition get_companies ::
  "data_models \<Rightarrow> database \<Rightarrow> int \<Rightarrow> int \<Rightarrow> string option \<Rightarrow> string option
     \<Rightarrow> (error + company list) \<times> database" where
  "get_companies models db skip limit sortby search =
     (let query = session_query (ContractCompany models);
          query =
            (case search of
               None \<Rightarrow> query
             | Some raw \<Rightarrow>
                 if raw = [] then query
                 else
                   (let search = ''%'' @ raw @ ''%''
                    in query_filter query
                         (or_any
                           [ilike ContractCompany_company_name search,
                            ilike ContractCompany_address search,
                            ilike ContractCompany_contact_person search,
                            ilike ContractCompany_contact_email search])))
      in case (case sortby of
                 None \<Rightarrow> Inr query
               | Some spec \<Rightarrow>
                   if spec = [] then Inr query
                   else
                     (case split_str CHR '':'' spec of
                        [sort_column, sort_order] \<Rightarrow>
                          if sort_order = ''desc'' then
                            (case getattr (ContractCompany models) sort_column of
                               Inl e \<Rightarrow> Inl e
                             | Inr attribute \<Rightarrow>
                                 (case desc attribute of
                                    Inl e \<Rightarrow> Inl e
                                  | Inr ord \<Rightarrow> Inr (query_order_by query ord)))
                          else
                            (case getattr (ContractCompany models) sort_column of
                               Inl e \<Rightarrow> Inl e
                             | Inr attribute \<Rightarrow>
                                 (case asc attribute of
                                    Inl e \<Rightarrow> Inl e
                                  | Inr ord \<Rightarrow> Inr (query_order_by query ord)))
                      | _ \<Rightarrow> Inr query)) of
           Inl e \<Rightarrow> (Inl e, db)
         | Inr query \<Rightarrow> query_all (query_limit (query_offset query skip) limit) db)"

definition get_vendor ::
  "data_models \<Rightarrow> database \<Rightarrow> int \<Rightarrow> (error + vendor option) \<times> database" where
  "get_vendor models db vendor_id =
     query_first
       (query_filter (session_query (Vendor models)) (col_eq Vendor_id (VInt vendor_id)))
       db"

definition get_vendors ::
  "data_models \<Rightarrow> database \<Rightarrow> int \<Rightarrow> int \<Rightarrow> string option \<Rightarrow> string option
     \<Rightarrow> (error + vendor list) \<times> database" where
  "get_vendors models db skip limit sortby search =
     (let query = session_query (Vendor models);
          query =
            (case search of
               None \<Rightarrow> query
             | Some raw \<Rightarrow>
                 if raw = [] then query
                 else
                   (let search = ''%'' @ raw @ ''%''
                    in query_filter query
                         (or_any
                           [ilike Vendor_name search,
                            ilike Vendor_address search,
                            ilike Vendor_contact_name search,
                            ilike Vendor_contact_email search,
                            ilike Vendor_contact_phone search,
                            ilike Vendor_contact_type search])))
      in case (case sortby of
                 None \<Rightarrow> Inr query
               | Some spec \<Rightarrow>
                   if spec = [] then Inr query
                   else
                     (case split_str CHR '':'' spec of
                        [sort_column, sort_order] \<Rightarrow>
                          if sort_order = ''desc'' then
                            (case getattr (Vendor models) sort_column of
                               Inl e \<Rightarrow> Inl e
                             | Inr attribute \<Rightarrow>
                                 (case desc attribute of
                                    Inl e \<Rightarrow> Inl e
                                  | Inr ord \<Rightarrow> Inr (query_order_by query ord)))
                          else
                            (case getattr (Vendor models) sort_column of
                               Inl e \<Rightarrow> Inl e
                             | Inr attribute \<Rightarrow>
                                 (case asc attribute of
                                    Inl e \<Rightarrow> Inl e
                                  | Inr ord \<Rightarrow> Inr (query_order_by query ord)))
                      | _ \<Rightarrow> Inr query)) of
           Inl e \<Rightarrow> (Inl e, db)
         | Inr query \<Rightarrow> query_all (query_limit (query_offset query skip) limit) db)"

definition get_sow ::
  "data_models \<Rightarrow> database \<Rightarrow> int \<Rightarrow> (error + sow option) \<times> database" where
  "get_sow models db sow_id =
     query_first
       (query_filter (session_query (Sow models)) (col_eq Sow_id (VInt sow_id)))
       db"

definition get_sows ::
  "data_models \<Rightarrow> database \<Rightarrow> int \<Rightarrow> int \<Rightarrow> string option \<Rightarrow> string option
     \<Rightarrow> (error + sow list) \<times> database" where
  "get_sows models db skip limit sortby search =
     (let query = session_query (Sow models);
          query =
            (case search of
               None \<Rightarrow> query
             | Some raw \<Rightarrow>
                 if raw = [] then query
                 else
                   (let search = ''%'' @ raw @ ''%''
                    in query_filter query
                         (or_any
                           [ilike Sow_sow_title search,
                            ilike Sow_sow_document search])))
      in case (case sortby of
                 None \<Rightarrow> Inr query
               | Some spec \<Rightarrow>
                   if spec = [] then Inr query
                   else
                     (case split_str CHR '':'' spec of
                        [sort_column, sort_order] \<Rightarrow>
                          if sort_order = ''desc'' then
                            (case getattr (Sow models) sort_column of
                               Inl e \<Rightarrow> Inl e
                             | Inr attribute \<Rightarrow>
                                 (case desc attribute of
                                    Inl e \<Rightarrow> Inl e
                                  | Inr ord \<Rightarrow> Inr (query_order_by query ord)))
                          else
                            (case getattr (Sow models) sort_column of
                               Inl e \<Rightarrow> Inl e
                             | Inr attribute \<Rightarrow>
                                 (case asc attribute of
                                    Inl e \<Rightarrow> Inl e
                                  | Inr ord \<Rightarrow> Inr (query_order_by query ord)))
                      | _ \<Rightarrow> Inr query)) of
           Inl e \<Rightarrow> (Inl e, db)
         | Inr query \<Rightarrow> query_all (query_limit (query_offset query skip) limit) db)"

definition get_invoice ::
  "data_models \<Rightarrow> database \<Rightarrow> int \<Rightarrow> (error + invoice option) \<times> database" where
  "get_invoice models db invoice_id =
     query_first
       (query_filter (session_query (Invoice models)) (col_eq Invoice_id (VInt invoice_id)))
       db"

definition get_invoices ::
  "data_models \<Rightarrow> database \<Rightarrow> int \<Rightarrow> int \<Rightarrow> string option \<Rightarrow> string option
     \<Rightarrow> (error + invoice list) \<times> database" where
  "get_invoices models db skip limit sortby search =
     (let query = session_query (Invoice models);
          query =
            (case search of
               None \<Rightarrow> query
             | Some raw \<Rightarrow>
                 if raw = [] then query
                 else
                   (let search = ''%'' @ raw @ ''%''
                    in query_filter query
                         (or_any
                           [ilike Invoice_invoice_number search,
                            ilike Invoice_payment_status search])))
      in case (case sortby of
                 None \<Rightarrow> Inr query
               | Some spec \<Rightarrow>
                   if spec = [] then Inr query
                   else
                     (case split_str CHR '':'' spec of
                        [sort_column, sort_order] \<Rightarrow>
                          if sort_order = ''desc'' then
                            (case getattr (Invoice models) sort_column of
                               Inl e \<Rightarrow> Inl e
                             | Inr attribute \<Rightarrow>
                                 (case desc attribute of
                                    Inl e \<Rightarrow> Inl e
                                  | Inr ord \<Rightarrow> Inr (query_order_by query ord)))
                          else
                            (case getattr (Invoice models) sort_column of
                               Inl e \<Rightarrow> Inl e
                             | Inr attribute \<Rightarrow>
                                 (case asc attribute of
                                    Inl e \<Rightarrow> Inl e
                                  | Inr ord \<Rightarrow> Inr (query_order_by query ord)))
                      | _ \<Rightarrow> Inr query)) of
           Inl e \<Rightarrow> (Inl e, db)
         | Inr query \<Rightarrow> query_all (query_limit (query_offset query skip) limit) db)"

section \<open>The invoice router\<close>

text \<open>
  The router reads through a connection of the pool. Its two statements are fixed texts
  with bound values. In \<open>SELECT * FROM invoices ORDER BY $1 LIMIT $2 OFFSET $3\<close> the
  first value stands where a sort expression is expected: a bound value is a value, not
  a column name, so the rows are sorted by the text that was passed, the same for every
  row; \<open>$2\<close> and \<open>$3\<close> are bound as \<open>bigint\<close>, and a value outside its range is refused
  (what the driver does with a NUL character inside the text \<open>$1\<close> is not modelled).
  In \<open>SELECT * FROM invoices WHERE id = $1\<close> the value is bound with the integer type of
  the column \<open>id\<close> and refused outside its range; \<open>fetchrow\<close> gives the first row found
  or \<open>None\<close>. \<open>Invoice(**dict(row))\<close> copies a row into the response model.
\<close>

record 'a ListResponse =
  resp_data :: "'a list"
  resp_total :: int
  resp_skip :: int
  resp_limit :: int

definition fetch_invoices_order_limit_offset ::
  "string \<Rightarrow> int \<Rightarrow> int \<Rightarrow> database \<Rightarrow> (error + invoice list) \<times> database" where
  "fetch_invoices_order_limit_offset p1 p2 p3 conn =
     query_all
       (query_offset
         (query_limit
           (query_order_by (select_from invoices) (Asc (\<lambda>row. VText p1)))
           p2)
         p3)
       conn"

definition fetchrow_invoice_where_id ::
  "int \<Rightarrow> database \<Rightarrow> (error + invoice option) \<times> database" where
  "fetchrow_invoice_where_id p1 conn =
     (if \<not> in_int_range (invoice_id_type conn) p1 then
        (Inl (DataError ''invalid input for query argument $1 (value out of range)''), conn)
      else
        (case query_all
                (query_filter (select_from invoices)
                  (col_eq (\<lambda>row. VInt (in_id row)) (VInt p1)))
                conn of
           (Inl e, conn') \<Rightarrow> (Inl e, conn')
         | (Inr rows, conn') \<Rightarrow>
             (Inr (case rows of [] \<Rightarrow> None | row # _ \<Rightarrow> Some row), conn')))"

definition list_invoices ::
  "int \<Rightarrow> int \<Rightarrow> string option \<Rightarrow> string option \<Rightarrow> database
     \<Rightarrow> (error + invoice ListResponse) \<times> database" where
  "list_invoices skip limit sortby search pool =
     (let orderby = ''id'';
          orderby = (case sortby of
                       None \<Rightarrow> orderby
                     | Some spec \<Rightarrow> if spec = [] then orderby else spec)
      in case fetch_invoices_order_limit_offset orderby limit skip pool of
           (Inl e, pool') \<Rightarrow> (Inl e, pool')
         | (Inr rows, pool') \<Rightarrow>
             (let invoices = map (\<lambda>row. row) rows
              in (Inr \<lparr>resp_data = invoices, resp_total = int (length invoices),
                       resp_skip = skip, resp_limit = limit\<rparr>,
                  pool')))"

definition read_invoice :: "int \<Rightarrow> database \<Rightarrow> (error + invoice) \<times> database" where
  "read_invoice invoice_id pool =
     (case fetchrow_invoice_where_id invoice_id pool of
        (Inl e, pool') \<Rightarrow> (Inl e, pool')
      | (Inr None, pool') \<Rightarrow>
          (Inl (HTTPException 404
                 (''An invoice with an id of '' @ str_int invoice_id @ '' was not found.'')),
           pool')
      | (Inr (Some row), pool') \<Rightarrow> (Inr row, pool'))"

section \<open>What the specification says about searching\<close>

text \<open>
  The specification speaks of a field that contains the search term as a substring,
  whatever the case of the letters. \<open>contains t s\<close> says that \<open>t\<close> occurs in \<open>s\<close> as a
  run of consecutive characters, \<open>contains_ci\<close> the same after case folding, and
  \<open>row_matches cols t r\<close> that one of the columns \<open>cols\<close> of the row \<open>r\<close> holds a text that
  contains \<open>t\<close>. The searchable columns of each class are those of the data-model table
  of the specification. \<open>wildcard_free t\<close>: no character of \<open>t\<close> is one of the three that
  a \<open>LIKE\<close> pattern reads as an operator. A plain term is not empty and made of ASCII
  characters other than NUL and those three; \<open>ascii_search_fields db\<close> says that the
  texts in the searchable columns of the four tables are ASCII.
\<close>

definition wildcard_free :: "string \<Rightarrow> bool" where
  "wildcard_free t = list_all (\<lambda>c. c \<noteq> CHR ''%'' \<and> c \<noteq> CHR ''_'' \<and> c \<noteq> CHR 0x5C) t"

fun is_prefix :: "string \<Rightarrow> string \<Rightarrow> bool" where
  "is_prefix [] s = True"
| "is_prefix (c # cs) [] = False"
| "is_prefix (c # cs) (d # ds) = (c = d \<and> is_prefix cs ds)"

fun contains :: "string \<Rightarrow> string \<Rightarrow> bool" where
  "contains t [] = (t = [])"
| "contains t (c # cs) = (is_prefix t (c # cs) \<or> contains t cs)"

definition contains_ci :: "string \<Rightarrow> string \<Rightarrow> bool" where
  "contains_ci t s = contains (lower t) (lower s)"

definition field_contains_ci :: "string \<Rightarrow> val \<Rightarrow> bool" where
  "field_contains_ci t v = (case v of VText s \<Rightarrow> contains_ci t s | _ \<Rightarrow> False)"

definition row_matches :: "('r \<Rightarrow> val) list \<Rightarrow> string \<Rightarrow> 'r \<Rightarrow> bool" where
  "row_matches cols t r = list_ex (\<lambda>col. field_contains_ci t (col r)) cols"

definition company_search_columns :: "(company \<Rightarrow> val) list" where
  "company_search_columns =
     [ContractCompany_company_name, ContractCompany_address, ContractCompany_contact_person,
      ContractCompany_contact_email]"

definition vendor_search_columns :: "(vendor \<Rightarrow> val) list" where
  "vendor_search_columns =
     [Vendor_name, Vendor_address, Vendor_contact_name, Vendor_contact_email,
      Vendor_contact_phone, Vendor_contact_type]"

definition sow_search_columns :: "(sow \<Rightarrow> val) list" where
  "sow_search_columns = [Sow_sow_title, Sow_sow_document]"

definition invoice_search_columns :: "(invoice \<Rightarrow> val) list" where
  "invoice_search_columns = [Invoice_invoice_number, Invoice_payment_status]"

definition ascii_text :: "string \<Rightarrow> bool" where
  "ascii_text s = list_all (\<lambda>c. (of_char c :: nat) < 128) s"

definition plain_term :: "string \<Rightarrow> bool" where
  "plain_term t = (t \<noteq> [] \<and> ascii_text t \<and> \<not> has_nul t \<and> wildcard_free t)"

definition ascii_val :: "val \<Rightarrow> bool" where
  "ascii_val v = (case v of VText s \<Rightarrow> ascii_text s | _ \<Rightarrow> True)"

definition ascii_columns :: "('r \<Rightarrow> val) list \<Rightarrow> 'r list \<Rightarrow> bool" where
  "ascii_columns cols rows = list_all (\<lambda>r. list_all (\<lambda>col. ascii_val (col r)) cols) rows"

definition ascii_search_fields :: "database \<Rightarrow> bool" where
  "ascii_search_fields db =
     (ascii_columns company_search_columns (companies db) \<and>
      ascii_columns vendor_search_columns (vendors db) \<and>
      ascii_columns sow_search_columns (sows db) \<and>
      ascii_columns invoice_search_columns (invoices db))"

section \<open>What the specification says about sorting and paging\<close>

text \<open>
  \<open>is_column cls name\<close>: the class has a column of that name; \<open>hasattr cls name\<close>: it has
  an attribute of that name, a column or another one. \<open>column_value\<close> is the value of
  the named column in a row. A page is non-decreasing or non-increasing on a column in
  the order \<open>ORDER BY\<close> sorts by, under the collation of the database.
\<close>

definition is_column :: "'r mapped_class \<Rightarrow> string \<Rightarrow> bool" where
  "is_column cls name = (map_of (columns cls) name \<noteq> None)"

definition hasattr :: "'r mapped_class \<Rightarrow> string \<Rightarrow> bool" where
  "hasattr cls name = (is_column cls name \<or> map_of (other_attributes cls) name \<noteq> None)"

definition column_value :: "'r mapped_class \<Rightarrow> string \<Rightarrow> 'r \<Rightarrow> val" where
  "column_value cls name r = (case map_of (columns cls) name of None \<Rightarrow> VNull | Some col \<Rightarrow> col r)"

definition non_decreasing_on ::
  "(string \<Rightarrow> string) \<Rightarrow> ('r \<Rightarrow> val) \<Rightarrow> 'r list \<Rightarrow> bool" where
  "non_decreasing_on coll col rows = sorted_wrt (\<lambda>a b. val_le coll (col a) (col b)) rows"

definition non_increasing_on ::
  "(string \<Rightarrow> string) \<Rightarrow> ('r \<Rightarrow> val) \<Rightarrow> 'r list \<Rightarrow> bool" where
  "non_increasing_on coll col rows = sorted_wrt (\<lambda>a b. val_le coll (col b) (col a)) rows"

definition nul_free :: "string option \<Rightarrow> bool" where
  "nul_free search = (case search of None \<Rightarrow> True | Some raw \<Rightarrow> \<not> has_nul raw)"

text \<open>
  \<open>unique_ids db\<close>: no two rows of a table share their identifier. \<open>same_collection\<close>:
  two databases hold the same rows, handed over in whatever order.
\<close>

definition unique_ids :: "database \<Rightarrow> bool" where
  "unique_ids db =
     (distinct (map co_id (companies db)) \<and> distinct (map ve_id (vendors db)) \<and>
      distinct (map sw_id (sows db)) \<and> distinct (map in_id (invoices db)))"

definition same_collection :: "database \<Rightarrow> database \<Rightarrow> bool" where
  "same_collection db db' =
     (set (companies db) = set (companies db') \<and> set (vendors db) = set (vendors db') \<and>
      set (sows db) = set (sows db') \<and> set (invoices db) = set (invoices db'))"

text \<open>
  Two results are the page at \<open>skip\<close> and the page after it: both calls return, the
  first page has at most \<open>limit\<close> rows, and no key of the first page is a key of the
  second; or both calls raise the same error.
\<close>

definition pages_disjoint ::
  "('r \<Rightarrow> int) \<Rightarrow> int \<Rightarrow> error + 'r list \<Rightarrow> error + 'r list \<Rightarrow> bool" where
  "pages_disjoint key limit r1 r2 =
     (case r1 of
        Inl e \<Rightarrow> r2 = Inl e
      | Inr p1 \<Rightarrow>
          (case r2 of
             Inl e \<Rightarrow> False
           | Inr p2 \<Rightarrow>
               int (length p1) \<le> limit \<and> list_all (\<lambda>r. key r \<notin> set (map key p2)) p1))"

section \<open>The shape the four list functions share\<close>

text \<open>
  The four list functions of the CRUD module are one text with the class and its
  searchable columns exchanged: \<open>list_function\<close>. \<open>listing\<close> is that text read in
  stages: what the \<open>sortby\<close> argument asks for (\<open>sort_request\<close>), which rows the \<open>search\<close>
  argument keeps (\<open>search_filter\<close>), the sorted rows, and the page. The lemmas
  \<open>get_companies_listing\<close> to \<open>get_invoices_listing\<close> below prove that each source
  function is equal to it.
\<close>

definition list_function ::
  "'r mapped_class \<Rightarrow> ('r \<Rightarrow> val) list \<Rightarrow> database \<Rightarrow> int \<Rightarrow> int \<Rightarrow> string option
     \<Rightarrow> string option \<Rightarrow> (error + 'r list) \<times> database" where
  "list_function cls cols db skip limit sortby search =
     (let query = session_query cls;
          query =
            (case search of
               None \<Rightarrow> query
             | Some raw \<Rightarrow>
                 if raw = [] then query
                 else
                   (let search = ''%'' @ raw @ ''%''
                    in query_filter query (or_any (map (\<lambda>col. ilike col search) cols))))
      in case (case sortby of
                 None \<Rightarrow> Inr query
               | Some spec \<Rightarrow>
                   if spec = [] then Inr query
                   else
                     (case split_str CHR '':'' spec of
                        [sort_column, sort_order] \<Rightarrow>
                          if sort_order = ''desc'' then
                            (case getattr cls sort_column of
                               Inl e \<Rightarrow> Inl e
                             | Inr attribute \<Rightarrow>
                                 (case desc attribute of
                                    Inl e \<Rightarrow> Inl e
                                  | Inr ord \<Rightarrow> Inr (query_order_by query ord)))
                          else
                            (case getattr cls sort_column of
                               Inl e \<Rightarrow> Inl e
                             | Inr attribute \<Rightarrow>
                                 (case asc attribute of
                                    Inl e \<Rightarrow> Inl e
                                  | Inr ord \<Rightarrow> Inr (query_order_by query ord)))
                      | _ \<Rightarrow> Inr query)) of
           Inl e \<Rightarrow> (Inl e, db)
         | Inr query \<Rightarrow> query_all (query_limit (query_offset query skip) limit) db)"

definition sort_request :: "'r mapped_class \<Rightarrow> string option \<Rightarrow> error + 'r ordering option" where
  "sort_request cls sortby =
     (case sortby of
        None \<Rightarrow> Inr None
      | Some spec \<Rightarrow>
          if spec = [] then Inr None
          else
            (case split_str CHR '':'' spec of
               [sort_column, sort_order] \<Rightarrow>
                 (case getattr cls sort_column of
                    Inl e \<Rightarrow> Inl e
                  | Inr attribute \<Rightarrow>
                      (case (if sort_order = ''desc'' then desc attribute else asc attribute) of
                         Inl e \<Rightarrow> Inl e
                       | Inr ord \<Rightarrow> Inr (Some ord)))
             | _ \<Rightarrow> Inr None))"

definition search_filter :: "('r \<Rightarrow> val) list \<Rightarrow> string option \<Rightarrow> 'r \<Rightarrow> bool" where
  "search_filter cols search r =
     (case search of
        None \<Rightarrow> True
      | Some raw \<Rightarrow>
          raw = [] \<or>
          holds (or_any (map (\<lambda>col. ilike col (''%'' @ raw @ ''%'')) cols)) r = Some True)"

definition sorted_rows ::
  "(string \<Rightarrow> string) \<Rightarrow> 'r ordering option \<Rightarrow> 'r list \<Rightarrow> 'r list" where
  "sorted_rows coll ord rows =
     (case ord of None \<Rightarrow> rows | Some crit \<Rightarrow> sort_by (ordering_le coll crit) rows)"

definition page :: "int \<Rightarrow> int \<Rightarrow> 'r list \<Rightarrow> error + 'r list" where
  "page skip limit rows =
     (if \<not> in_int_range BigInt skip \<or> \<not> in_int_range BigInt limit then
        Inl (DataError ''bigint out of range'')
      else if skip < 0 then Inl (DataError ''OFFSET must not be negative'')
      else if limit < 0 then Inl (DataError ''LIMIT must not be negative'')
      else Inr (take (nat limit) (drop (nat skip) rows)))"

definition listing ::
  "'r mapped_class \<Rightarrow> ('r \<Rightarrow> val) list \<Rightarrow> database \<Rightarrow> int \<Rightarrow> int \<Rightarrow> string option
     \<Rightarrow> string option \<Rightarrow> error + 'r list" where
  "listing cls cols db skip limit sortby search =
     (case sort_request cls sortby of
        Inl e \<Rightarrow> Inl e
      | Inr ord \<Rightarrow>
          if cols \<noteq> [] \<and> \<not> nul_free search then
            Inl (ValueError ''A string literal cannot contain NUL (0x00) characters.'')
          else
            page skip limit
              (sorted_rows (collation_key db) ord
                (filter (search_filter cols search) (table_rows cls db))))"

section \<open>The scenario of the specification\<close>

text \<open>
  The three companies of the specification, with a vendor, a statement of work and two
  invoices beside them; texts are their own sort keys, the identifiers of
  the invoices are \<open>bigint\<close>, and the classes have two further attributes each.
\<close>

definition acme :: company where
  "acme =
     \<lparr>co_id = 1, co_company_name = ''Acme'', co_address = None, co_contact_person = None,
      co_contact_email = None, co_extra_metadata = None\<rparr>"

definition acme_corp :: company where
  "acme_corp =
     \<lparr>co_id = 2, co_company_name = ''Acme Corp'', co_address = None,
      co_contact_person = None, co_contact_email = None, co_extra_metadata = None\<rparr>"

definition zenith :: company where
  "zenith =
     \<lparr>co_id = 3, co_company_name = ''Zenith'', co_address = None, co_contact_person = None,
      co_contact_email = None, co_extra_metadata = None\<rparr>"

definition a_vendor :: vendor where
  "a_vendor =
     \<lparr>ve_id = 1, ve_name = ''Northwind'', ve_address = None, ve_contact_name = Some ''Ada'',
      ve_contact_email = None, ve_contact_phone = None, ve_contact_type = None\<rparr>"

definition a_sow :: sow where
  "a_sow =
     \<lparr>sw_id = 1, sw_sow_title = ''Migration'', sw_start_date = None, sw_end_date = None,
      sw_budget = Some 1000, sw_sow_document = None, sw_details = None\<rparr>"

definition invoice_7 :: invoice where
  "invoice_7 = \<lparr>in_id = 7, in_invoice_number = Some ''INV-7'', in_payment_status = Some ''Paid''\<rparr>"

definition invoice_3 :: invoice where
  "invoice_3 = \<lparr>in_id = 3, in_invoice_number = Some ''INV-3'', in_payment_status = None\<rparr>"

definition scenario_db :: database where
  "scenario_db =
     \<lparr>companies = [acme, acme_corp, zenith], vendors = [a_vendor], sows = [a_sow],
      invoices = [invoice_7, invoice_3], collation_key = (\<lambda>s. s), invoice_id_type = BigInt\<rparr>"

definition scenario_models :: data_models where
  "scenario_models =
     \<lparr>company_attributes =
        [(''__tablename__'', NotSortKey (SQLAlchemyError ''CompileError'')),
         (''__doc__'', SortKey (\<lambda>r. VNull))],
      vendor_attributes =
        [(''__tablename__'', NotSortKey (SQLAlchemyError ''CompileError'')),
         (''__doc__'', SortKey (\<lambda>r. VNull))],
      sow_attributes =
        [(''__tablename__'', NotSortKey (SQLAlchemyError ''CompileError'')),
         (''__doc__'', SortKey (\<lambda>r. VNull))],
      invoice_attributes =
        [(''__tablename__'', NotSortKey (SQLAlchemyError ''CompileError'')),
         (''__doc__'', SortKey (\<lambda>r. VNull))]\<rparr>"

section \<open>Facts about the library functions\<close>

subsection \<open>Splitting\<close>

lemma split_str_no_sep: "sep \<notin> set s \<Longrightarrow> split_str sep s = [s]"
  by (induction s) auto

lemma split_str_two:
  "sep \<notin> set a \<Longrightarrow> sep \<notin> set b \<Longrightarrow> split_str sep (a @ sep # b) = [a, b]"
  by (induction a) (auto simp: split_str_no_sep)

subsection \<open>The order of values and sorting\<close>

lemma val_le_total: "val_le coll a b \<or> val_le coll b a"
  by (cases a; cases b) auto

lemma val_le_trans: "val_le coll a b \<Longrightarrow> val_le coll b c \<Longrightarrow> val_le coll a c"
  by (cases a; cases b; cases c; simp)

lemma set_insort_by: "set (insort_by le x xs) = insert x (set xs)"
  by (induction xs) auto

lemma sort_by_Cons: "sort_by le (x # xs) = insort_by le x (sort_by le xs)"
  unfolding sort_by_def by simp

lemma sort_by_Nil: "sort_by le [] = []"
  unfolding sort_by_def by simp

lemma set_sort_by: "set (sort_by le xs) = set xs"
  by (induction xs) (auto simp: sort_by_Nil sort_by_Cons set_insort_by)

lemma distinct_map_insort_by:
  "distinct (map f (insort_by le x xs)) = (f x \<notin> f ` set xs \<and> distinct (map f xs))"
  by (induction xs) (auto simp: set_insort_by)

lemma distinct_map_sort_by: "distinct (map f (sort_by le xs)) = distinct (map f xs)"
  by (induction xs) (simp_all add: sort_by_Nil sort_by_Cons distinct_map_insort_by set_sort_by)

lemma sorted_insort_by:
  assumes total: "\<And>a b. le a b \<or> le b a"
    and trans: "\<And>a b c. le a b \<Longrightarrow> le b c \<Longrightarrow> le a c"
  shows "sorted_wrt le xs \<Longrightarrow> sorted_wrt le (insort_by le x xs)"
proof (induction xs)
  case Nil
  show ?case by simp
next
  case (Cons y ys)
  show ?case
  proof (cases "le x y")
    case True
    have "\<forall>z\<in>set ys. le x z"
      using True Cons.prems trans by auto
    with True Cons.prems show ?thesis by simp
  next
    case False
    then have "le y x" using total by blast
    with False Cons show ?thesis
      by (auto simp: set_insort_by)
  qed
qed

lemma sorted_sort_by:
  assumes total: "\<And>a b. le a b \<or> le b a"
    and trans: "\<And>a b c. le a b \<Longrightarrow> le b c \<Longrightarrow> le a c"
  shows "sorted_wrt le (sort_by le xs)"
proof (induction xs)
  case Nil
  show ?case by (simp add: sort_by_Nil)
next
  case (Cons x xs)
  from sorted_insort_by [of le, OF total trans Cons.IH]
  show ?case by (simp add: sort_by_Cons)
qed

lemma insort_by_head: "(\<And>y. y \<in> set xs \<Longrightarrow> le x y) \<Longrightarrow> insort_by le x xs = x # xs"
  by (cases xs) auto

lemma sort_by_const:
  assumes "\<And>a b. le a b"
  shows "sort_by le xs = xs"
proof (induction xs)
  case Nil
  show ?case by (simp add: sort_by_Nil)
next
  case (Cons x xs)
  have "insort_by le x xs = x # xs"
    by (rule insort_by_head) (rule assms)
  with Cons show ?case
    by (simp add: sort_by_Cons)
qed

lemma ordering_le_total: "ordering_le coll ord a b \<or> ordering_le coll ord b a"
  by (cases ord) (simp_all add: val_le_total)

lemma ordering_le_trans:
  assumes "ordering_le coll ord a b" "ordering_le coll ord b c"
  shows "ordering_le coll ord a c"
proof (cases ord)
  case (Asc col)
  with assms show ?thesis
    using val_le_trans [of coll "col a" "col b" "col c"] by simp
next
  case (Desc col)
  with assms show ?thesis
    using val_le_trans [of coll "col c" "col b" "col a"] by simp
qed

lemma sorted_sort_by_ordering:
  "sorted_wrt (ordering_le coll ord) (sort_by (ordering_le coll ord) xs)"
proof (rule sorted_sort_by)
  show "ordering_le coll ord a b \<or> ordering_le coll ord b a" for a b
    by (rule ordering_le_total)
  show "ordering_le coll ord a b \<Longrightarrow> ordering_le coll ord b c \<Longrightarrow> ordering_le coll ord a c"
    for a b c
    by (rule ordering_le_trans)
qed

text \<open>
  A list without repetitions that is sorted by a comparison which tells its elements
  apart is determined by its elements.
\<close>

lemma sorted_wrt_unique:
  assumes "sorted_wrt le xs" "sorted_wrt le ys" "distinct xs" "distinct ys" "set xs = set ys"
    and antisym: "\<And>a b. a \<in> set xs \<Longrightarrow> b \<in> set xs \<Longrightarrow> le a b \<Longrightarrow> le b a \<Longrightarrow> a = b"
  shows "xs = ys"
  using assms
proof (induction xs arbitrary: ys)
  case Nil
  then show ?case by simp
next
  case (Cons x xs)
  from Cons.prems(5) obtain y ys' where ys: "ys = y # ys'"
    by (cases ys) auto
  have xy: "x = y"
  proof (rule ccontr)
    assume ne: "x \<noteq> y"
    with Cons.prems(5) ys have "x \<in> set ys'" "y \<in> set xs" by auto
    with Cons.prems(1,2) ys have "le y x" "le x y" by auto
    with Cons.prems(6) [of x y] \<open>y \<in> set xs\<close> ne show False by auto
  qed
  with Cons.prems(3,4,5) ys have sets: "set xs = set ys'" by auto
  have "xs = ys'"
  proof (rule Cons.IH)
    show "sorted_wrt le xs" using Cons.prems(1) by simp
    show "sorted_wrt le ys'" using Cons.prems(2) ys by simp
    show "distinct xs" using Cons.prems(3) by simp
    show "distinct ys'" using Cons.prems(4) ys by simp
    show "set xs = set ys'" by (rule sets)
    show "a = b" if "a \<in> set xs" "b \<in> set xs" "le a b" "le b a" for a b
      using that Cons.prems(6) [of a b] by simp
  qed
  with xy ys show ?case by simp
qed

subsection \<open>Pages of a list without repeated keys\<close>

lemma take_drop_disjoint:
  assumes "distinct (map f ys)"
  shows "f ` set (take n ys) \<inter> f ` set (take m (drop n ys)) = {}"
proof -
  have "map f ys = map f (take n ys) @ map f (drop n ys)"
    by (simp flip: map_append)
  with assms have "distinct (map f (take n ys) @ map f (drop n ys))"
    by simp
  then have disj: "f ` set (take n ys) \<inter> f ` set (drop n ys) = {}"
    by simp
  have "set (take m (drop n ys)) \<subseteq> set (drop n ys)"
    by (rule set_take_subset)
  with disj show ?thesis
    by blast
qed

lemma pages_disjoint_ids:
  assumes "distinct (map f xs)"
  shows "f ` set (take n (drop k xs)) \<inter> f ` set (take m (drop (k + n) xs)) = {}"
proof -
  have "distinct (map f (drop k xs))"
    using distinct_drop [OF assms, of k] by (simp add: drop_map)
  from take_drop_disjoint [OF this, of n m] show ?thesis
    by (simp add: add.commute)
qed

subsection \<open>Substrings and patterns\<close>

lemma is_prefix_iff: "is_prefix t s \<longleftrightarrow> (\<exists>b. s = t @ b)"
  by (induction t s rule: is_prefix.induct) auto

lemma contains_iff: "contains t s \<longleftrightarrow> (\<exists>a b. s = a @ t @ b)"
proof (induction s)
  case Nil
  show ?case by auto
next
  case (Cons c cs)
  have "(\<exists>a b. c # cs = a @ t @ b) \<longleftrightarrow> (\<exists>b. c # cs = t @ b) \<or> (\<exists>a b. cs = a @ t @ b)"
  proof
    assume "\<exists>a b. c # cs = a @ t @ b"
    then obtain a b where ab: "c # cs = a @ t @ b" by blast
    show "(\<exists>b. c # cs = t @ b) \<or> (\<exists>a b. cs = a @ t @ b)"
    proof (cases a)
      case Nil
      with ab show ?thesis by auto
    next
      case (Cons a0 a')
      with ab have "cs = a' @ t @ b" by simp
      then show ?thesis by blast
    qed
  next
    assume "(\<exists>b. c # cs = t @ b) \<or> (\<exists>a b. cs = a @ t @ b)"
    then show "\<exists>a b. c # cs = a @ t @ b"
    proof
      assume "\<exists>b. c # cs = t @ b"
      then obtain b where "c # cs = [] @ t @ b" by auto
      then show ?thesis by blast
    next
      assume "\<exists>a b. cs = a @ t @ b"
      then obtain a b where "c # cs = (c # a) @ t @ b" by auto
      then show ?thesis by blast
    qed
  qed
  with Cons show ?case by (simp add: is_prefix_iff)
qed

lemma like_percent_Nil: "like_match (CHR ''%'' # ps) [] = like_match ps []"
  by simp

lemma like_percent_Cons:
  "like_match (CHR ''%'' # ps) (c # cs) =
     (like_match ps (c # cs) \<or> like_match (CHR ''%'' # ps) cs)"
  by simp

lemma like_literal_Nil:
  "p \<noteq> CHR ''%'' \<Longrightarrow> p \<noteq> CHR ''_'' \<Longrightarrow> p \<noteq> CHR 0x5C \<Longrightarrow> like_match (p # ps) [] = False"
  by simp

lemma like_literal_Cons:
  "p \<noteq> CHR ''%'' \<Longrightarrow> p \<noteq> CHR ''_'' \<Longrightarrow> p \<noteq> CHR 0x5C \<Longrightarrow>
     like_match (p # ps) (c # cs) = (c = p \<and> like_match ps cs)"
  by simp

lemma like_literal_prefix:
  "wildcard_free t \<Longrightarrow> like_match (t @ q) s \<longleftrightarrow> (\<exists>rest. s = t @ rest \<and> like_match q rest)"
proof (induction t arbitrary: s)
  case Nil
  show ?case by simp
next
  case (Cons p ps)
  then have lit: "p \<noteq> CHR ''%''" "p \<noteq> CHR ''_''" "p \<noteq> CHR 0x5C" and wf: "wildcard_free ps"
    by (simp_all add: wildcard_free_def)
  show ?case
  proof (cases s)
    case Nil
    with lit show ?thesis by (simp only: append_Cons like_literal_Nil) simp
  next
    case (Cons c cs)
    with lit Cons.IH [OF wf, of cs] show ?thesis
      by (simp only: append_Cons like_literal_Cons) auto
  qed
qed

lemma like_percent:
  "like_match (CHR ''%'' # q) s \<longleftrightarrow> (\<exists>a b. s = a @ b \<and> like_match q b)"
proof (induction s)
  case Nil
  show ?case by (simp only: like_percent_Nil) simp
next
  case (Cons c cs)
  have "(\<exists>a b. c # cs = a @ b \<and> like_match q b) \<longleftrightarrow>
        like_match q (c # cs) \<or> (\<exists>a b. cs = a @ b \<and> like_match q b)"
  proof
    assume "\<exists>a b. c # cs = a @ b \<and> like_match q b"
    then obtain a b where ab: "c # cs = a @ b" "like_match q b" by blast
    show "like_match q (c # cs) \<or> (\<exists>a b. cs = a @ b \<and> like_match q b)"
    proof (cases a)
      case Nil
      with ab show ?thesis by simp
    next
      case (Cons a0 a')
      with ab have "cs = a' @ b" by simp
      with ab(2) show ?thesis by blast
    qed
  next
    assume "like_match q (c # cs) \<or> (\<exists>a b. cs = a @ b \<and> like_match q b)"
    then show "\<exists>a b. c # cs = a @ b \<and> like_match q b"
    proof
      assume "like_match q (c # cs)"
      then have "c # cs = [] @ (c # cs) \<and> like_match q (c # cs)" by simp
      then show ?thesis by blast
    next
      assume "\<exists>a b. cs = a @ b \<and> like_match q b"
      then obtain a b where "c # cs = (c # a) @ b \<and> like_match q b" by auto
      then show ?thesis by blast
    qed
  qed
  with Cons show ?case by (simp only: like_percent_Cons)
qed

lemma like_percent_only: "like_match ''%'' s"
proof -
  have "s = s @ [] \<and> like_match [] []" by simp
  then show ?thesis unfolding like_percent by blast
qed

lemma like_wrapped:
  assumes "wildcard_free t"
  shows "like_match (''%'' @ t @ ''%'') s \<longleftrightarrow> contains t s"
proof -
  have "like_match (''%'' @ t @ ''%'') s \<longleftrightarrow> (\<exists>a b. s = a @ b \<and> like_match (t @ ''%'') b)"
    using like_percent [of "t @ ''%''" s] by simp
  also have "\<dots> \<longleftrightarrow> (\<exists>a b. s = a @ b \<and> (\<exists>rest. b = t @ rest))"
    by (simp only: like_literal_prefix [OF assms] like_percent_only simp_thms)
  also have "\<dots> \<longleftrightarrow> (\<exists>a b. s = a @ t @ b)"
    by blast
  finally show ?thesis by (simp only: contains_iff)
qed

lemma lower_char_special:
  "lower_char c = CHR ''%'' \<longleftrightarrow> c = CHR ''%''"
  "lower_char c = CHR ''_'' \<longleftrightarrow> c = CHR ''_''"
  "lower_char c = CHR 0x5C \<longleftrightarrow> c = CHR 0x5C"
  by (auto simp: lower_char_def Let_def char_of_eq_iff take_bit_eq_mod)

subsection \<open>The list functions in stages\<close>

lemma has_nul_wrapped: "has_nul (CHR ''%'' # raw @ ''%'') = has_nul raw"
  by (simp add: has_nul_def)

lemma run_select_page:
  "run_select (query_limit (query_offset q skip) limit) db =
     (if list_ex has_nul (concat (map bound_params (whereclause q))) then
        Inl (ValueError ''A string literal cannot contain NUL (0x00) characters.'')
      else
        page skip limit
          (sorted_rows (collation_key db) (order_by_clause q)
            (filter (\<lambda>r. list_all (\<lambda>c. holds c r = Some True) (whereclause q))
              (from_rows q db))))"
  by (simp add: run_select_def query_limit_def query_offset_def page_def sorted_rows_def
      out_of_range_def negative_def apply_offset_def apply_limit_def Let_def)

lemma search_filter_None: "search_filter cols None = (\<lambda>r. True)"
  by (simp add: search_filter_def fun_eq_iff)

lemmas query_defs =
  session_query_def select_from_def query_filter_def query_order_by_def

lemma list_function_listing:
  "list_function cls cols db skip limit sortby search =
     (listing cls cols db skip limit sortby search, db)"
proof -
  define q0 where "q0 =
     (case search of
        None \<Rightarrow> session_query cls
      | Some raw \<Rightarrow>
          if raw = [] then session_query cls
          else query_filter (session_query cls)
                 (or_any (map (\<lambda>col. ilike col (''%'' @ raw @ ''%'')) cols)))"
  define stage where "stage =
     (case sortby of
        None \<Rightarrow> Inr q0
      | Some spec \<Rightarrow>
          if spec = [] then Inr q0
          else
            (case split_str CHR '':'' spec of
               [sort_column, sort_order] \<Rightarrow>
                 if sort_order = ''desc'' then
                   (case getattr cls sort_column of
                      Inl e \<Rightarrow> Inl e
                    | Inr attribute \<Rightarrow>
                        (case desc attribute of
                           Inl e \<Rightarrow> Inl e
                         | Inr ord \<Rightarrow> Inr (query_order_by q0 ord)))
                 else
                   (case getattr cls sort_column of
                      Inl e \<Rightarrow> Inl e
                    | Inr attribute \<Rightarrow>
                        (case asc attribute of
                           Inl e \<Rightarrow> Inl e
                         | Inr ord \<Rightarrow> Inr (query_order_by q0 ord)))
             | _ \<Rightarrow> Inr q0))"
  have unfolded: "list_function cls cols db skip limit sortby search =
     (case stage of
        Inl e \<Rightarrow> (Inl e, db)
      | Inr query \<Rightarrow> query_all (query_limit (query_offset query skip) limit) db)"
    unfolding list_function_def stage_def q0_def Let_def by (rule refl)
  have from0: "from_rows q0 = table_rows cls" and order0: "order_by_clause q0 = None"
    by (simp_all add: q0_def query_defs split: option.splits)
  have nul0: "list_ex has_nul (concat (map bound_params (whereclause q0))) =
              (cols \<noteq> [] \<and> \<not> nul_free search)"
    by (cases cols)
      (auto simp: q0_def query_defs or_any_def ilike_def nul_free_def has_nul_wrapped
        has_nul_def list_ex_iff split: option.splits)
  have where0: "(\<lambda>r. list_all (\<lambda>c. holds c r = Some True) (whereclause q0)) =
                search_filter cols search"
    by (auto simp: q0_def query_defs search_filter_def fun_eq_iff split: option.splits)
  have staged: "stage =
     (case sort_request cls sortby of
        Inl e \<Rightarrow> Inl e
      | Inr None \<Rightarrow> Inr q0
      | Inr (Some ord) \<Rightarrow> Inr (query_order_by q0 ord))"
    by (auto simp: stage_def sort_request_def split: option.splits list.splits sum.splits)
  have ordered: "from_rows (query_order_by q0 ord) = table_rows cls"
    "order_by_clause (query_order_by q0 ord) = Some ord"
    "whereclause (query_order_by q0 ord) = whereclause q0" for ord
    by (simp_all add: query_order_by_def from0)
  show ?thesis
  proof (cases "sort_request cls sortby")
    case (Inl e)
    then show ?thesis
      by (simp add: unfolded staged listing_def)
  next
    case (Inr ord)
    show ?thesis
    proof (cases ord)
      case None
      with Inr show ?thesis
        by (simp add: unfolded staged listing_def query_all_def run_select_page from0 order0
            nul0 where0)
    next
      case (Some crit)
      with Inr show ?thesis
        by (simp add: unfolded staged listing_def query_all_def run_select_page ordered
            nul0 where0)
    qed
  qed
qed

lemmas search_columns_defs =
  company_search_columns_def vendor_search_columns_def sow_search_columns_def
  invoice_search_columns_def

lemma get_companies_listing:
  "get_companies models db skip limit sortby search =
     (listing (ContractCompany models) company_search_columns db skip limit sortby search, db)"
  unfolding list_function_listing [symmetric]
  unfolding get_companies_def list_function_def company_search_columns_def Let_def list.map by (rule refl)

lemma get_vendors_listing:
  "get_vendors models db skip limit sortby search =
     (listing (Vendor models) vendor_search_columns db skip limit sortby search, db)"
  unfolding list_function_listing [symmetric]
  unfolding get_vendors_def list_function_def vendor_search_columns_def Let_def list.map by (rule refl)

lemma get_sows_listing:
  "get_sows models db skip limit sortby search =
     (listing (Sow models) sow_search_columns db skip limit sortby search, db)"
  unfolding list_function_listing [symmetric]
  unfolding get_sows_def list_function_def sow_search_columns_def Let_def list.map by (rule refl)

lemma get_invoices_listing:
  "get_invoices models db skip limit sortby search =
     (listing (Invoice models) invoice_search_columns db skip limit sortby search, db)"
  unfolding list_function_listing [symmetric]
  unfolding get_invoices_def list_function_def invoice_search_columns_def Let_def list.map by (rule refl)

lemma table_rows_simps:
  "table_rows (ContractCompany models) db = companies db"
  "table_rows (Vendor models) db = vendors db"
  "table_rows (Sow models) db = sows db"
  "table_rows (Invoice models) db = invoices db"
  by (simp_all add: ContractCompany_def Vendor_def Sow_def Invoice_def)

subsection \<open>The sort request\<close>

lemma sort_request_None: "sort_request cls None = Inr None"
  by (simp add: sort_request_def)

lemma sort_request_malformed:
  "length (split_str CHR '':'' s) \<noteq> 2 \<Longrightarrow> sort_request cls (Some s) = Inr None"
  by (auto simp: sort_request_def split: list.splits)

lemma sort_request_two:
  assumes "CHR '':'' \<notin> set column" "CHR '':'' \<notin> set direction"
  shows "sort_request cls (Some (column @ CHR '':'' # direction)) =
           (case getattr cls column of
              Inl e \<Rightarrow> Inl e
            | Inr attribute \<Rightarrow>
                (case (if direction = ''desc'' then desc attribute else asc attribute) of
                   Inl e \<Rightarrow> Inl e
                 | Inr ord \<Rightarrow> Inr (Some ord)))"
  using split_str_two [OF assms] by (simp add: sort_request_def)

lemma getattr_column:
  "is_column cls name \<Longrightarrow> getattr cls name = Inr (SortKey (column_value cls name))"
  by (auto simp: is_column_def getattr_def column_value_def fun_eq_iff)

lemma getattr_missing:
  "\<not> hasattr cls name \<Longrightarrow> getattr cls name = Inl (AttributeError name)"
  by (auto simp: hasattr_def is_column_def getattr_def)

lemma column_names_no_colon:
  "is_column (ContractCompany models) name \<Longrightarrow> CHR '':'' \<notin> set name"
  "is_column (Vendor models) name \<Longrightarrow> CHR '':'' \<notin> set name"
  "is_column (Sow models) name \<Longrightarrow> CHR '':'' \<notin> set name"
  "is_column (Invoice models) name \<Longrightarrow> CHR '':'' \<notin> set name"
  by (auto simp: is_column_def ContractCompany_def Vendor_def Sow_def Invoice_def
      split: if_splits)

lemma sort_request_column:
  assumes "is_column cls column" "CHR '':'' \<notin> set column" "CHR '':'' \<notin> set direction"
  shows "sort_request cls (Some (column @ CHR '':'' # direction)) =
           Inr (Some (if direction = ''desc'' then Desc (column_value cls column)
                      else Asc (column_value cls column)))"
  by (simp add: sort_request_two [OF assms(2,3)] getattr_column [OF assms(1)])

subsection \<open>Pages of a listing\<close>

lemma in_bigint:
  "in_int_range BigInt n = (- 9223372036854775808 \<le> n \<and> n < 9223372036854775808)"
  by (simp add: in_int_range_def)

lemma distinct_map_sorted_rows:
  "distinct (map f (sorted_rows coll ord rows)) = distinct (map f rows)"
  by (cases ord) (simp_all add: sorted_rows_def distinct_map_sort_by)

lemma sorted_sorted_rows:
  "sorted_wrt (ordering_le coll crit) (sorted_rows coll (Some crit) rows)"
  by (simp add: sorted_rows_def sorted_sort_by_ordering)

lemma page_Inr:
  "0 \<le> skip \<Longrightarrow> skip < 2 ^ 63 \<Longrightarrow> 0 \<le> limit \<Longrightarrow> limit < 2 ^ 63 \<Longrightarrow>
     page skip limit rows = Inr (take (nat limit) (drop (nat skip) rows))"
  by (simp add: page_def in_bigint)

lemma page_pages_disjoint:
  assumes "0 \<le> skip" "0 < limit" "skip + limit < 2 ^ 63" "distinct (map key rows)"
  shows "pages_disjoint key limit (page skip limit rows) (page (skip + limit) limit rows)"
proof -
  have n: "nat (skip + limit) = nat skip + nat limit"
    using assms by (simp add: nat_add_distrib)
  have p1: "page skip limit rows = Inr (take (nat limit) (drop (nat skip) rows))"
    using assms by (intro page_Inr) simp_all
  have p2: "page (skip + limit) limit rows =
            Inr (take (nat limit) (drop (nat skip + nat limit) rows))"
    using assms by (simp add: page_Inr n)
  have "key ` set (take (nat limit) (drop (nat skip) rows)) \<inter>
        key ` set (take (nat limit) (drop (nat skip + nat limit) rows)) = {}"
    using assms(4) by (rule pages_disjoint_ids)
  then have "list_all (\<lambda>r. key r \<notin> set (map key (take (nat limit) (drop (nat skip + nat limit) rows))))
              (take (nat limit) (drop (nat skip) rows))"
    unfolding list_all_iff by auto
  moreover have "int (length (take (nat limit) (drop (nat skip) rows))) \<le> limit"
    using assms by simp
  ultimately show ?thesis
    by (simp add: pages_disjoint_def p1 p2)
qed

lemma listing_pages:
  assumes "0 \<le> skip" "0 < limit" "skip + limit < 2 ^ 63"
    and "distinct (map key (table_rows cls db))"
  shows "pages_disjoint key limit
           (listing cls cols db skip limit sortby search)
           (listing cls cols db (skip + limit) limit sortby search)"
proof (cases "sort_request cls sortby")
  case (Inl e)
  then show ?thesis by (simp add: listing_def pages_disjoint_def)
next
  case (Inr ord)
  have "distinct (map key (sorted_rows (collation_key db) ord
          (filter (search_filter cols search) (table_rows cls db))))"
    using assms(4) by (simp add: distinct_map_sorted_rows distinct_map_filter)
  note pages = page_pages_disjoint [OF assms(1,2,3) this]
  define nul where "nul = (cols \<noteq> [] \<and> \<not> nul_free search)"
  have eq: "listing cls cols db k limit sortby search =
      (if nul then Inl (ValueError ''A string literal cannot contain NUL (0x00) characters.'')
       else page k limit (sorted_rows (collation_key db) ord
              (filter (search_filter cols search) (table_rows cls db))))" for k
    using Inr by (simp add: listing_def nul_def)
  show ?thesis
  proof (cases nul)
    case True
    then show ?thesis
      unfolding eq by (simp add: pages_disjoint_def)
  next
    case False
    with pages show ?thesis
      unfolding eq by simp
  qed
qed

text \<open>
  Sorted by a column that holds the key, the rows come out in one order, in whatever
  order the engine hands them over.
\<close>

lemma sort_by_key_unique:
  fixes key :: "'a \<Rightarrow> int"
  assumes "distinct (map key xs)" "distinct (map key ys)" "set xs = set ys"
    and le: "(\<forall>a b. le a b = (key a \<le> key b)) \<or> (\<forall>a b. le a b = (key b \<le> key a))"
  shows "sort_by le (filter P xs) = sort_by le (filter P ys)"
proof (rule sorted_wrt_unique [of le])
  have tot: "le a b \<or> le b a" for a b
    using le by (auto simp: linear)
  have tr: "le a b \<Longrightarrow> le b c \<Longrightarrow> le a c" for a b c
    using le by auto
  show "sorted_wrt le (sort_by le (filter P xs))"
    by (rule sorted_sort_by [of le, OF tot tr])
  show "sorted_wrt le (sort_by le (filter P ys))"
    by (rule sorted_sort_by [of le, OF tot tr])
  show "distinct (sort_by le (filter P xs))"
    using assms(1) distinct_map_sort_by [of "\<lambda>x. x" le "filter P xs"]
    by (simp add: distinct_map)
  show "distinct (sort_by le (filter P ys))"
    using assms(2) distinct_map_sort_by [of "\<lambda>x. x" le "filter P ys"]
    by (simp add: distinct_map)
  show "set (sort_by le (filter P xs)) = set (sort_by le (filter P ys))"
    using assms(3) by (simp add: set_sort_by)
  show "a = b"
    if "a \<in> set (sort_by le (filter P xs))" "b \<in> set (sort_by le (filter P xs))"
      "le a b" "le b a" for a b
  proof -
    from that(1,2) have "a \<in> set xs" "b \<in> set xs"
      by (simp_all add: set_sort_by)
    moreover from that(3,4) have "key a = key b"
      using le by auto
    ultimately show ?thesis
      using assms(1) by (auto simp: distinct_map inj_on_def)
  qed
qed

lemma listing_pages_by_key:
  assumes "0 \<le> skip" "0 < limit" "skip + limit < 2 ^ 63"
    and "is_column cls column" "CHR '':'' \<notin> set column" "CHR '':'' \<notin> set direction"
    and key: "\<And>r. column_value cls column r = VInt (key r)"
    and "distinct (map key (table_rows cls db))" "distinct (map key (table_rows cls db'))"
    and "set (table_rows cls db) = set (table_rows cls db')"
  shows "pages_disjoint key limit
           (listing cls cols db skip limit (Some (column @ '':'' @ direction)) search)
           (listing cls cols db' (skip + limit) limit (Some (column @ '':'' @ direction)) search)"
proof -
  define crit where "crit = (if direction = ''desc'' then Desc (column_value cls column)
                             else Asc (column_value cls column))"
  have req: "sort_request cls (Some (column @ CHR '':'' # direction)) = Inr (Some crit)"
    unfolding crit_def by (rule sort_request_column [OF assms(4,5,6)])
  have le: "ordering_le coll crit a b = (if direction = ''desc'' then key b \<le> key a
                                         else key a \<le> key b)" for coll a b
    by (simp add: crit_def key)
  have "sort_by (ordering_le (collation_key db') crit)
          (filter (search_filter cols search) (table_rows cls db')) =
        sort_by (ordering_le (collation_key db) crit)
          (filter (search_filter cols search) (table_rows cls db))"
  proof -
    have same: "ordering_le (collation_key db') crit = ordering_le (collation_key db) crit"
      by (simp add: le fun_eq_iff)
    show ?thesis
      unfolding same
      by (rule sort_by_key_unique [of key, OF assms(9,8) assms(10) [symmetric]])
        (auto simp: le)
  qed
  then have rows: "sorted_rows (collation_key db') (Some crit)
          (filter (search_filter cols search) (table_rows cls db')) =
        sorted_rows (collation_key db) (Some crit)
          (filter (search_filter cols search) (table_rows cls db))"
    by (simp add: sorted_rows_def)
  have "listing cls cols db' (skip + limit) limit (Some (column @ '':'' @ direction)) search =
        listing cls cols db (skip + limit) limit (Some (column @ '':'' @ direction)) search"
    by (simp add: listing_def req rows cong: if_cong)
  with listing_pages [OF assms(1,2,3,8)] show ?thesis
    by simp
qed

subsection \<open>The search filter\<close>

lemma lower_append: "lower (a @ b) = lower a @ lower b"
  by (simp add: lower_def)

lemma lower_percent: "lower ''%'' = ''%''"
  by (simp add: lower_def lower_char_def)

lemma wildcard_free_lower: "wildcard_free t \<Longrightarrow> wildcard_free (lower t)"
  by (induction t) (simp_all add: wildcard_free_def lower_def lower_char_special)

lemma ilike_match_wrapped:
  assumes "wildcard_free raw"
  shows "ilike_match (CHR ''%'' # raw @ ''%'') s = contains_ci raw s"
proof -
  have "ilike_match (''%'' @ raw @ ''%'') s = contains_ci raw s"
    using like_wrapped [OF wildcard_free_lower [OF assms], of "lower s"]
    by (simp only: ilike_match_def contains_ci_def lower_append lower_percent)
  then show ?thesis by simp
qed

lemma holds_ilike_wrapped:
  assumes "wildcard_free raw"
  shows "(holds (ilike col (''%'' @ raw @ ''%'')) r = Some True) = field_contains_ci raw (col r)"
  by (cases "col r") (simp_all add: ilike_def field_contains_ci_def ilike_match_wrapped [OF assms])

lemma holds_or_any: "(holds (or_any cs) r = Some True) = list_ex (\<lambda>c. holds c r = Some True) cs"
  by (simp add: or_any_def)

lemma search_filter_matches:
  assumes "wildcard_free raw" "raw \<noteq> []"
  shows "search_filter cols (Some raw) = row_matches cols raw"
proof
  fix r
  have "list_ex (\<lambda>c. holds c r = Some True) (map (\<lambda>col. ilike col (''%'' @ raw @ ''%'')) cols) =
        list_ex (\<lambda>col. field_contains_ci raw (col r)) cols"
    by (simp only: list_ex_iff set_map bex_simps holds_ilike_wrapped [OF assms(1)])
  with assms(2) show "search_filter cols (Some raw) r = row_matches cols raw r"
    by (simp only: search_filter_def row_matches_def holds_or_any option.case simp_thms)
qed

lemma plain_termD:
  "plain_term raw \<Longrightarrow> wildcard_free raw"
  "plain_term raw \<Longrightarrow> raw \<noteq> []"
  "plain_term raw \<Longrightarrow> nul_free (Some raw)"
  by (simp_all add: plain_term_def nul_free_def)

lemma listing_search:
  assumes "plain_term raw"
    and "table_rows cls db' = filter (row_matches cols raw) (table_rows cls db)"
    and "collation_key db' = collation_key db"
  shows "listing cls cols db skip limit sortby (Some raw) =
         listing cls cols db' skip limit sortby None"
proof -
  have "nul_free (Some raw)" "nul_free None"
    using plain_termD(3) [OF assms(1)] by (simp_all add: nul_free_def)
  then show ?thesis
    by (cases "sort_request cls sortby")
      (simp_all add: listing_def search_filter_matches [OF plain_termD(1,2) [OF assms(1)]]
        search_filter_None assms(2,3))
qed

lemma listing_search_unsorted:
  assumes "plain_term raw" "0 \<le> skip" "skip < 2 ^ 63" "0 \<le> limit" "limit < 2 ^ 63"
  shows "listing cls cols db skip limit None (Some raw) =
         Inr (take (nat limit) (drop (nat skip) (filter (row_matches cols raw) (table_rows cls db))))"
  by (simp add: listing_def sort_request_None sorted_rows_def
      search_filter_matches [OF plain_termD(1,2) [OF assms(1)]] plain_termD(3) [OF assms(1)]
      page_Inr [OF assms(2-5)])

subsection \<open>Sorted listings\<close>

lemma listing_sorted:
  assumes "is_column cls column"
    and "CHR '':'' \<notin> set column" "CHR '':'' \<notin> set direction"
    and "0 \<le> skip" "skip < 2 ^ 63" "0 \<le> limit" "limit < 2 ^ 63" "nul_free search"
  shows "\<exists>p. listing cls cols db skip limit (Some (column @ '':'' @ direction)) search = Inr p \<and>
             (if direction = ''desc''
              then non_increasing_on (collation_key db) (column_value cls column) p
              else non_decreasing_on (collation_key db) (column_value cls column) p)"
proof -
  define crit where "crit = (if direction = ''desc'' then Desc (column_value cls column)
                             else Asc (column_value cls column))"
  define rows where "rows = sorted_rows (collation_key db) (Some crit)
                              (filter (search_filter cols search) (table_rows cls db))"
  have req: "sort_request cls (Some (column @ CHR '':'' # direction)) = Inr (Some crit)"
    unfolding crit_def by (rule sort_request_column [OF assms(1,2,3)])
  have res: "listing cls cols db skip limit (Some (column @ '':'' @ direction)) search =
             Inr (take (nat limit) (drop (nat skip) rows))"
    using assms(8) by (simp add: listing_def req rows_def page_Inr [OF assms(4-7)])
  have "sorted_wrt (ordering_le (collation_key db) crit) rows"
    unfolding rows_def by (rule sorted_sorted_rows)
  then have "sorted_wrt (ordering_le (collation_key db) crit) (take (nat limit) (drop (nat skip) rows))"
    by (intro sorted_wrt_take sorted_wrt_drop)
  moreover have "ordering_le (collation_key db) crit =
      (if direction = ''desc''
       then (\<lambda>a b. val_le (collation_key db) (column_value cls column b) (column_value cls column a))
       else (\<lambda>a b. val_le (collation_key db) (column_value cls column a) (column_value cls column b)))"
    by (auto simp: crit_def fun_eq_iff)
  ultimately show ?thesis
    unfolding res non_increasing_on_def non_decreasing_on_def by (auto split: if_splits)
qed

lemma listing_unknown_column:
  assumes "\<not> hasattr cls column"
    and "CHR '':'' \<notin> set column" "CHR '':'' \<notin> set direction"
  shows "listing cls cols db skip limit (Some (column @ '':'' @ direction)) search =
           Inl (AttributeError column)"
  using getattr_missing [OF assms(1)]
  by (simp add: listing_def sort_request_two [OF assms(2,3)])

lemma listing_malformed:
  "length (split_str CHR '':'' s) \<noteq> 2 \<Longrightarrow>
     listing cls cols db skip limit (Some s) search = listing cls cols db skip limit None search"
  by (simp add: listing_def sort_request_malformed sort_request_None)

subsection \<open>The statements of the router\<close>

lemma fetch_invoices_page:
  "fetch_invoices_order_limit_offset p1 limit skip conn = (page skip limit (invoices conn), conn)"
proof -
  have "sort_by (ordering_le coll (Asc (\<lambda>row. VText p1))) rows = rows"
    for rows :: "invoice list" and coll
    by (rule sort_by_const) simp
  then show ?thesis
    by (simp add: fetch_invoices_order_limit_offset_def query_all_def run_select_def query_defs
        query_limit_def query_offset_def page_def out_of_range_def negative_def
        apply_offset_def apply_limit_def)
qed

lemma list_invoices_page:
  "list_invoices skip limit sortby search pool =
     (case page skip limit (invoices pool) of
        Inl e \<Rightarrow> Inl e
      | Inr rows \<Rightarrow>
          Inr \<lparr>resp_data = rows, resp_total = int (length rows), resp_skip = skip,
               resp_limit = limit\<rparr>,
      pool)"
  by (simp add: list_invoices_def fetch_invoices_page Let_def split: sum.splits option.splits)

lemma fetchrow_find:
  "fetchrow_invoice_where_id i conn =
     (if \<not> in_int_range (invoice_id_type conn) i then
        (Inl (DataError ''invalid input for query argument $1 (value out of range)''), conn)
      else (Inr (find (\<lambda>row. in_id row = i) (invoices conn)), conn))"
proof -
  have "(case filter P rows of [] \<Rightarrow> None | row # _ \<Rightarrow> Some row) = find P rows"
    for P and rows :: "invoice list"
    by (induction rows) auto
  then show ?thesis
    by (simp add: fetchrow_invoice_where_id_def query_all_def run_select_def query_defs
        col_eq_def out_of_range_def negative_def apply_offset_def apply_limit_def)
qed

section \<open>The claims\<close>

lemmas listing_eqs =
  get_companies_listing get_vendors_listing get_sows_listing get_invoices_listing

lemmas scenario_defs =
  scenario_db_def acme_def acme_corp_def zenith_def a_vendor_def a_sow_def invoice_7_def
  invoice_3_def

lemma id_is_column:
  "is_column (ContractCompany models) ''id''" "is_column (Vendor models) ''id''"
  "is_column (Sow models) ''id''" "is_column (Invoice models) ''id''"
  by (simp_all add: is_column_def ContractCompany_def Vendor_def Sow_def Invoice_def)

lemma id_column_value:
  "column_value (ContractCompany models) ''id'' r1 = VInt (co_id r1)"
  "column_value (Vendor models) ''id'' r2 = VInt (ve_id r2)"
  "column_value (Sow models) ''id'' r3 = VInt (sw_id r3)"
  "column_value (Invoice models) ''id'' r4 = VInt (in_id r4)"
  by (simp_all add: column_value_def ContractCompany_def Vendor_def Sow_def Invoice_def
      ContractCompany_id_def Vendor_id_def Sow_id_def Invoice_id_def)

lemma list_invoices_data:
  "map_sum (\<lambda>e. e) resp_data (fst (list_invoices k limit sortby search db)) =
     page k limit (invoices db)"
  by (simp add: list_invoices_page split: sum.splits)

text \<open>
  Claim C1, as amended. For every list operation (\<open>get_companies\<close>, \<open>get_vendors\<close>,
  \<open>get_sows\<close>, \<open>get_invoices\<close> and the pool-based \<open>list_invoices\<close>), for \<open>skip \<ge> 0\<close>,
  \<open>limit > 0\<close> and \<open>skip + limit\<close> below \<open>2^63\<close>, over a collection whose identifiers
  are unique: the returned page has at most \<open>limit\<close> records, and the call with
  \<open>skip + limit\<close> returns a page that shares no record with it, provided the engine
  hands the rows to both calls in the same order; the ORM functions with
  \<open>sortby = "id:<direction>"\<close> do so whatever order the engine hands the rows over in
  (\<open>pages_disjoint\<close>; when ordering by the named attribute or the search term makes
  the call raise, both calls raise the same error).
\<close>

theorem list_pages_bounded_and_disjoint:
  assumes "0 \<le> skip" "0 < limit" "skip + limit < 2 ^ 63" "unique_ids db"
  shows "pages_disjoint co_id limit
           (fst (get_companies models db skip limit sortby search))
           (fst (get_companies models db (skip + limit) limit sortby search)) \<and>
         pages_disjoint ve_id limit
           (fst (get_vendors models db skip limit sortby search))
           (fst (get_vendors models db (skip + limit) limit sortby search)) \<and>
         pages_disjoint sw_id limit
           (fst (get_sows models db skip limit sortby search))
           (fst (get_sows models db (skip + limit) limit sortby search)) \<and>
         pages_disjoint in_id limit
           (fst (get_invoices models db skip limit sortby search))
           (fst (get_invoices models db (skip + limit) limit sortby search)) \<and>
         pages_disjoint in_id limit
           (map_sum (\<lambda>e. e) resp_data (fst (list_invoices skip limit sortby search db)))
           (map_sum (\<lambda>e. e) resp_data (fst (list_invoices (skip + limit) limit sortby search db))) \<and>
         (same_collection db db' \<and> unique_ids db' \<and> CHR '':'' \<notin> set direction \<longrightarrow>
            pages_disjoint co_id limit
              (fst (get_companies models db skip limit (Some (''id'' @ '':'' @ direction)) search))
              (fst (get_companies models db' (skip + limit) limit
                     (Some (''id'' @ '':'' @ direction)) search)) \<and>
            pages_disjoint ve_id limit
              (fst (get_vendors models db skip limit (Some (''id'' @ '':'' @ direction)) search))
              (fst (get_vendors models db' (skip + limit) limit
                     (Some (''id'' @ '':'' @ direction)) search)) \<and>
            pages_disjoint sw_id limit
              (fst (get_sows models db skip limit (Some (''id'' @ '':'' @ direction)) search))
              (fst (get_sows models db' (skip + limit) limit
                     (Some (''id'' @ '':'' @ direction)) search)) \<and>
            pages_disjoint in_id limit
              (fst (get_invoices models db skip limit (Some (''id'' @ '':'' @ direction)) search))
              (fst (get_invoices models db' (skip + limit) limit
                     (Some (''id'' @ '':'' @ direction)) search)))"
proof -
  from assms(4) have u:
    "distinct (map co_id (companies db))" "distinct (map ve_id (vendors db))"
    "distinct (map sw_id (sows db))" "distinct (map in_id (invoices db))"
    by (simp_all add: unique_ids_def)
  have same_order:
    "pages_disjoint co_id limit
       (fst (get_companies models db skip limit sortby search))
       (fst (get_companies models db (skip + limit) limit sortby search))"
    "pages_disjoint ve_id limit
       (fst (get_vendors models db skip limit sortby search))
       (fst (get_vendors models db (skip + limit) limit sortby search))"
    "pages_disjoint sw_id limit
       (fst (get_sows models db skip limit sortby search))
       (fst (get_sows models db (skip + limit) limit sortby search))"
    "pages_disjoint in_id limit
       (fst (get_invoices models db skip limit sortby search))
       (fst (get_invoices models db (skip + limit) limit sortby search))"
    using u
      listing_pages [of skip limit co_id "ContractCompany models" db, OF assms(1,2,3)]
      listing_pages [of skip limit ve_id "Vendor models" db, OF assms(1,2,3)]
      listing_pages [of skip limit sw_id "Sow models" db, OF assms(1,2,3)]
      listing_pages [of skip limit in_id "Invoice models" db, OF assms(1,2,3)]
    by (simp_all add: listing_eqs table_rows_simps)
  have pool:
    "pages_disjoint in_id limit
       (map_sum (\<lambda>e. e) resp_data (fst (list_invoices skip limit sortby search db)))
       (map_sum (\<lambda>e. e) resp_data (fst (list_invoices (skip + limit) limit sortby search db)))"
    unfolding list_invoices_data using assms(1,2,3) u(4) by (rule page_pages_disjoint)
  have any_order:
    "pages_disjoint co_id limit
       (fst (get_companies models db skip limit (Some (''id'' @ '':'' @ direction)) search))
       (fst (get_companies models db' (skip + limit) limit
              (Some (''id'' @ '':'' @ direction)) search)) \<and>
     pages_disjoint ve_id limit
       (fst (get_vendors models db skip limit (Some (''id'' @ '':'' @ direction)) search))
       (fst (get_vendors models db' (skip + limit) limit
              (Some (''id'' @ '':'' @ direction)) search)) \<and>
     pages_disjoint sw_id limit
       (fst (get_sows models db skip limit (Some (''id'' @ '':'' @ direction)) search))
       (fst (get_sows models db' (skip + limit) limit
              (Some (''id'' @ '':'' @ direction)) search)) \<and>
     pages_disjoint in_id limit
       (fst (get_invoices models db skip limit (Some (''id'' @ '':'' @ direction)) search))
       (fst (get_invoices models db' (skip + limit) limit
              (Some (''id'' @ '':'' @ direction)) search))"
    if "same_collection db db'" "unique_ids db'" "CHR '':'' \<notin> set direction"
  proof -
    from that(2) have u':
      "distinct (map co_id (companies db'))" "distinct (map ve_id (vendors db'))"
      "distinct (map sw_id (sows db'))" "distinct (map in_id (invoices db'))"
      by (simp_all add: unique_ids_def)
    from that(1) have s:
      "set (companies db) = set (companies db')" "set (vendors db) = set (vendors db')"
      "set (sows db) = set (sows db')" "set (invoices db) = set (invoices db')"
      by (simp_all add: same_collection_def)
    have c: "CHR '':'' \<notin> set ''id''" by simp
    note
      listing_pages_by_key [of skip limit "ContractCompany models" "''id''" direction co_id db db',
        OF assms(1,2,3) id_is_column(1) c that(3) id_column_value(1)]
      listing_pages_by_key [of skip limit "Vendor models" "''id''" direction ve_id db db',
        OF assms(1,2,3) id_is_column(2) c that(3) id_column_value(2)]
      listing_pages_by_key [of skip limit "Sow models" "''id''" direction sw_id db db',
        OF assms(1,2,3) id_is_column(3) c that(3) id_column_value(3)]
      listing_pages_by_key [of skip limit "Invoice models" "''id''" direction in_id db db',
        OF assms(1,2,3) id_is_column(4) c that(3) id_column_value(4)]
    with u u' s show ?thesis
      by (simp add: listing_eqs table_rows_simps)
  qed
  from same_order pool any_order show ?thesis
    by blast
qed

theorem list_pages_bounded_and_disjoint_witness:
  "(0::int) \<le> 0 \<and> (0::int) < 2 \<and> (0::int) + 2 < 2 ^ 63 \<and> unique_ids scenario_db \<and>
   same_collection scenario_db (scenario_db\<lparr>companies := rev (companies scenario_db)\<rparr>) \<and>
   unique_ids (scenario_db\<lparr>companies := rev (companies scenario_db)\<rparr>) \<and>
   CHR '':'' \<notin> set ''desc'' \<and>
   pages_disjoint co_id 2
     (fst (get_companies scenario_models scenario_db 0 2 None None))
     (fst (get_companies scenario_models scenario_db (0 + 2) 2 None None)) \<and>
   pages_disjoint in_id 2
     (map_sum (\<lambda>e. e) resp_data (fst (list_invoices 0 2 None None scenario_db)))
     (map_sum (\<lambda>e. e) resp_data (fst (list_invoices (0 + 2) 2 None None scenario_db))) \<and>
   pages_disjoint co_id 2
     (fst (get_companies scenario_models scenario_db 0 2 (Some (''id'' @ '':'' @ ''desc'')) None))
     (fst (get_companies scenario_models
            (scenario_db\<lparr>companies := rev (companies scenario_db)\<rparr>) (0 + 2) 2
            (Some (''id'' @ '':'' @ ''desc'')) None))"
proof -
  have h: "(0::int) \<le> 0" "(0::int) < 2" "(0::int) + 2 < 2 ^ 63" "unique_ids scenario_db"
    by (simp_all add: unique_ids_def scenario_defs)
  have h': "same_collection scenario_db (scenario_db\<lparr>companies := rev (companies scenario_db)\<rparr>)"
    "unique_ids (scenario_db\<lparr>companies := rev (companies scenario_db)\<rparr>)"
    "CHR '':'' \<notin> set ''desc''"
    using h(4) by (simp_all add: same_collection_def unique_ids_def flip: rev_map)
  from list_pages_bounded_and_disjoint [OF h, of scenario_models None None
      "scenario_db\<lparr>companies := rev (companies scenario_db)\<rparr>" "''desc''"] h h'
  show ?thesis by (simp only: simp_thms)
qed

text \<open>
  Claim C1 as stated fails in two ways. Handed the three companies in the opposite
  order for the second call, the page at \<open>skip = 2\<close> repeats a company of the page at
  \<open>skip = 0\<close>. And at \<open>skip = 2^63 - 10\<close>, \<open>limit = 10\<close> the second call, with
  \<open>skip = 2^63\<close>, returns no page: the engine refuses the offset.
\<close>

theorem list_pages_counterexample:
  "same_collection scenario_db (scenario_db\<lparr>companies := rev (companies scenario_db)\<rparr>) \<and>
   fst (get_companies scenario_models scenario_db 0 2 None None) = Inr [acme, acme_corp] \<and>
   fst (get_companies scenario_models
         (scenario_db\<lparr>companies := rev (companies scenario_db)\<rparr>) (0 + 2) 2 None None) =
     Inr [acme] \<and>
   fst (get_companies scenario_models scenario_db 9223372036854775798 10 None None) = Inr [] \<and>
   fst (get_companies scenario_models scenario_db (9223372036854775798 + 10) 10 None None) =
     Inl (DataError ''bigint out of range'')"
proof -
  have "same_collection scenario_db (scenario_db\<lparr>companies := rev (companies scenario_db)\<rparr>)"
    by (simp add: same_collection_def)
  moreover have "fst (get_companies scenario_models scenario_db 0 2 None None) =
                 Inr [acme, acme_corp]"
    by code_simp
  moreover have "fst (get_companies scenario_models
         (scenario_db\<lparr>companies := rev (companies scenario_db)\<rparr>) (0 + 2) 2 None None) =
     Inr [acme]"
    by code_simp
  moreover have
    "fst (get_companies scenario_models scenario_db 9223372036854775798 10 None None) = Inr []"
    by (simp add: listing_eqs listing_def sort_request_None search_filter_None sorted_rows_def
        page_def in_bigint table_rows_simps nul_free_def scenario_defs)
  moreover have
    "fst (get_companies scenario_models scenario_db (9223372036854775798 + 10) 10 None None) =
     Inl (DataError ''bigint out of range'')"
    by (simp add: listing_eqs listing_def sort_request_None search_filter_None sorted_rows_def
        page_def in_bigint table_rows_simps nul_free_def)
  ultimately show ?thesis by blast
qed

text \<open>
  Claim C2, as amended. For a search term that is not empty and made of ASCII
  characters other than NUL, \<open>%\<close>, \<open>_\<close> and backslash, over records whose searchable
  fields hold ASCII text, and a page request within the range of \<open>bigint\<close>: each ORM
  list function without \<open>sortby\<close> returns exactly the page of the records that have a
  searchable field containing the term as a case-insensitive substring, and with any
  \<open>sortby\<close> it returns what the same call without a search returns on the table
  restricted to those records. (The function matches each field against the term
  between two \<open>%\<close>, joined by \<open>OR\<close>; a pattern character inside the term is read as an
  operator.) For the three companies of the scenario, \<open>search = "acme"\<close> returns the
  ids 1 and 2.
\<close>

theorem search_returns_matching_records:
  assumes "plain_term raw" "ascii_search_fields db"
    and "0 \<le> skip" "skip < 2 ^ 63" "0 \<le> limit" "limit < 2 ^ 63"
  shows "fst (get_companies models db skip limit None (Some raw)) =
           Inr (take (nat limit) (drop (nat skip)
                 (filter (row_matches company_search_columns raw) (companies db)))) \<and>
         fst (get_vendors models db skip limit None (Some raw)) =
           Inr (take (nat limit) (drop (nat skip)
                 (filter (row_matches vendor_search_columns raw) (vendors db)))) \<and>
         fst (get_sows models db skip limit None (Some raw)) =
           Inr (take (nat limit) (drop (nat skip)
                 (filter (row_matches sow_search_columns raw) (sows db)))) \<and>
         fst (get_invoices models db skip limit None (Some raw)) =
           Inr (take (nat limit) (drop (nat skip)
                 (filter (row_matches invoice_search_columns raw) (invoices db)))) \<and>
         fst (get_companies models db skip limit sortby (Some raw)) =
         fst (get_companies models
               (db\<lparr>companies := filter (row_matches company_search_columns raw) (companies db)\<rparr>)
               skip limit sortby None) \<and>
         fst (get_vendors models db skip limit sortby (Some raw)) =
         fst (get_vendors models
               (db\<lparr>vendors := filter (row_matches vendor_search_columns raw) (vendors db)\<rparr>)
               skip limit sortby None) \<and>
         fst (get_sows models db skip limit sortby (Some raw)) =
         fst (get_sows models
               (db\<lparr>sows := filter (row_matches sow_search_columns raw) (sows db)\<rparr>)
               skip limit sortby None) \<and>
         fst (get_invoices models db skip limit sortby (Some raw)) =
         fst (get_invoices models
               (db\<lparr>invoices := filter (row_matches invoice_search_columns raw) (invoices db)\<rparr>)
               skip limit sortby None) \<and>
         map_sum (\<lambda>e. e) (map co_id)
           (fst (get_companies scenario_models scenario_db 0 10 None (Some ''acme''))) =
         Inr [1, 2]"
proof -
  have "map_sum (\<lambda>e. e) (map co_id)
          (fst (get_companies scenario_models scenario_db 0 10 None (Some ''acme''))) =
        Inr [1, 2]"
    by code_simp
  then show ?thesis
    by (simp add: listing_eqs listing_search [OF assms(1)]
        listing_search_unsorted [OF assms(1) assms(3-6)] table_rows_simps)
qed

theorem search_returns_matching_records_witness:
  "plain_term ''acme'' \<and> ascii_search_fields scenario_db \<and>
   (0::int) \<le> 0 \<and> (0::int) < 2 ^ 63 \<and> (0::int) \<le> 10 \<and> (10::int) < 2 ^ 63 \<and>
   fst (get_companies scenario_models scenario_db 0 10 None (Some ''acme'')) =
     Inr (take (nat 10) (drop (nat 0)
           (filter (row_matches company_search_columns ''acme'') (companies scenario_db))))"
proof -
  have h: "plain_term ''acme''" "ascii_search_fields scenario_db"
    "(0::int) \<le> 0" "(0::int) < 2 ^ 63" "(0::int) \<le> 10" "(10::int) < 2 ^ 63"
    by (simp_all add: plain_term_def ascii_text_def has_nul_def wildcard_free_def
        ascii_search_fields_def ascii_columns_def ascii_val_def search_columns_defs
        scenario_defs ContractCompany_company_name_def ContractCompany_address_def
        ContractCompany_contact_person_def ContractCompany_contact_email_def
        Vendor_name_def Vendor_address_def Vendor_contact_name_def Vendor_contact_email_def
        Vendor_contact_phone_def Vendor_contact_type_def Sow_sow_title_def
        Sow_sow_document_def Invoice_invoice_number_def Invoice_payment_status_def
        opt_text_def)
  from search_returns_matching_records [OF h, of scenario_models None] h
  show ?thesis by (simp only: simp_thms)
qed

text \<open>
  Claim C2 as stated fails for a term with a pattern character: \<open>search = "a_me"\<close>
  returns the company \<open>Acme\<close>, no field of which contains \<open>a_me\<close>. It also fails for
  the pool-based \<open>list_invoices\<close>, which does not use its \<open>search\<close> argument: with
  \<open>search = "zzz"\<close> it returns invoice 7, no field of which contains \<open>zzz\<close>.
\<close>

theorem search_wildcard_counterexample:
  "fst (get_companies scenario_models scenario_db 0 10 None (Some ''a_me'')) =
     Inr [acme, acme_corp] \<and>
   \<not> row_matches company_search_columns ''a_me'' acme \<and>
   map_sum (\<lambda>e. e) resp_data (fst (list_invoices 0 10 None (Some ''zzz'') scenario_db)) =
     Inr [invoice_7, invoice_3] \<and>
   \<not> row_matches invoice_search_columns ''zzz'' invoice_7"
  by code_simp

text \<open>
  Claim C3. For every ORM list function with \<open>sortby = "<column>:<direction>"\<close> where
  the column is a column of the class, a page request within the range of \<open>bigint\<close>
  and a search term without NUL: with the direction \<open>desc\<close> the returned page is
  non-increasing on that column, with any other direction it is non-decreasing, in the
  collation of the database. For the companies of the scenario, \<open>search = "acme"\<close> with
  \<open>sortby = "company_name:desc"\<close> returns the ids 2, 1.
\<close>

theorem sortby_direction:
  assumes "CHR '':'' \<notin> set direction"
    and "0 \<le> skip" "skip < 2 ^ 63" "0 \<le> limit" "limit < 2 ^ 63" "nul_free search"
  shows "(is_column (ContractCompany models) column \<longrightarrow>
            (\<exists>p. fst (get_companies models db skip limit (Some (column @ '':'' @ direction)) search) =
                   Inr p \<and>
                 (if direction = ''desc''
                  then non_increasing_on (collation_key db)
                         (column_value (ContractCompany models) column) p
                  else non_decreasing_on (collation_key db)
                         (column_value (ContractCompany models) column) p))) \<and>
         (is_column (Vendor models) column \<longrightarrow>
            (\<exists>p. fst (get_vendors models db skip limit (Some (column @ '':'' @ direction)) search) =
                   Inr p \<and>
                 (if direction = ''desc''
                  then non_increasing_on (collation_key db) (column_value (Vendor models) column) p
                  else non_decreasing_on (collation_key db) (column_value (Vendor models) column) p))) \<and>
         (is_column (Sow models) column \<longrightarrow>
            (\<exists>p. fst (get_sows models db skip limit (Some (column @ '':'' @ direction)) search) =
                   Inr p \<and>
                 (if direction = ''desc''
                  then non_increasing_on (collation_key db) (column_value (Sow models) column) p
                  else non_decreasing_on (collation_key db) (column_value (Sow models) column) p))) \<and>
         (is_column (Invoice models) column \<longrightarrow>
            (\<exists>p. fst (get_invoices models db skip limit (Some (column @ '':'' @ direction)) search) =
                   Inr p \<and>
                 (if direction = ''desc''
                  then non_increasing_on (collation_key db) (column_value (Invoice models) column) p
                  else non_decreasing_on (collation_key db) (column_value (Invoice models) column) p))) \<and>
         map_sum (\<lambda>e. e) (map co_id)
           (fst (get_companies scenario_models scenario_db 0 10 (Some ''company_name:desc'')
                  (Some ''acme''))) =
         Inr [2, 1]"
proof -
  have "map_sum (\<lambda>e. e) (map co_id)
           (fst (get_companies scenario_models scenario_db 0 10 (Some ''company_name:desc'')
                  (Some ''acme''))) =
         Inr [2, 1]"
    by code_simp
  moreover note
    listing_sorted [of "ContractCompany models" column direction skip limit search,
      OF _ column_names_no_colon(1) assms]
    listing_sorted [of "Vendor models" column direction skip limit search,
      OF _ column_names_no_colon(2) assms]
    listing_sorted [of "Sow models" column direction skip limit search,
      OF _ column_names_no_colon(3) assms]
    listing_sorted [of "Invoice models" column direction skip limit search,
      OF _ column_names_no_colon(4) assms]
  ultimately show ?thesis
    unfolding listing_eqs fst_conv by blast
qed

theorem sortby_direction_witness:
  "CHR '':'' \<notin> set ''DESC'' \<and> (0::int) \<le> 0 \<and> (0::int) < 2 ^ 63 \<and> (0::int) \<le> 10 \<and>
   (10::int) < 2 ^ 63 \<and> nul_free None \<and>
   is_column (ContractCompany scenario_models) ''id'' \<and> is_column (Vendor scenario_models) ''id'' \<and>
   is_column (Sow scenario_models) ''id'' \<and> is_column (Invoice scenario_models) ''id'' \<and>
   (\<exists>p. fst (get_companies scenario_models scenario_db 0 10 (Some (''id'' @ '':'' @ ''DESC'')) None) =
          Inr p \<and>
        non_decreasing_on (collation_key scenario_db)
          (column_value (ContractCompany scenario_models) ''id'') p) \<and>
   (\<exists>p. fst (get_invoices scenario_models scenario_db 0 10 (Some (''id'' @ '':'' @ ''DESC'')) None) =
          Inr p \<and>
        non_decreasing_on (collation_key scenario_db)
          (column_value (Invoice scenario_models) ''id'') p)"
proof -
  have h: "CHR '':'' \<notin> set ''DESC''" "(0::int) \<le> 0" "(0::int) < 2 ^ 63" "(0::int) \<le> 10"
    "(10::int) < 2 ^ 63" "nul_free None"
    by (simp_all add: nul_free_def)
  have d: "''DESC'' \<noteq> ''desc''" by simp
  from sortby_direction [OF h, of scenario_models "''id''" scenario_db] id_is_column h d
  show ?thesis by (simp only: simp_thms if_False)
qed

text \<open>
  Claim C4. For every ORM list function, a \<open>sortby\<close> string that does not split into
  exactly two parts on \<open>:\<close> (no colon, or two or more) gives exactly the result of the
  call with no \<open>sortby\<close>: the sort request is ignored and no error is raised for it.
\<close>

theorem malformed_sortby_ignored:
  assumes "length (split_str CHR '':'' s) \<noteq> 2"
  shows "get_companies models db skip limit (Some s) search =
         get_companies models db skip limit None search \<and>
         get_vendors models db skip limit (Some s) search =
         get_vendors models db skip limit None search \<and>
         get_sows models db skip limit (Some s) search =
         get_sows models db skip limit None search \<and>
         get_invoices models db skip limit (Some s) search =
         get_invoices models db skip limit None search"
  by (simp add: listing_eqs listing_malformed [OF assms])

theorem malformed_sortby_ignored_witness:
  "length (split_str CHR '':'' ''bogus'') \<noteq> 2 \<and>
   length (split_str CHR '':'' ''company_name:desc:x'') \<noteq> 2 \<and>
   get_companies scenario_models scenario_db 0 10 (Some ''bogus'') None =
   get_companies scenario_models scenario_db 0 10 None None \<and>
   get_sows scenario_models scenario_db 0 10 (Some ''company_name:desc:x'') None =
   get_sows scenario_models scenario_db 0 10 None None"
proof -
  have h: "length (split_str CHR '':'' ''bogus'') \<noteq> 2"
    "length (split_str CHR '':'' ''company_name:desc:x'') \<noteq> 2"
    by simp_all
  from malformed_sortby_ignored [OF h(1), of scenario_models scenario_db 0 10 None]
    malformed_sortby_ignored [OF h(2), of scenario_models scenario_db 0 10 None] h
  show ?thesis by simp
qed

text \<open>
  Claim C5. In \<open>list_invoices\<close> the \<open>sortby\<close> string (or \<open>id\<close> when it is absent) is bound
  as a value in the \<open>ORDER BY\<close> position of the fixed statement, so it does not select a
  column: for every \<open>sortby\<close> the call returns what it returns with no \<open>sortby\<close>. In the
  scenario the invoices come back in table order (ids 7, 3) whatever column is named.
\<close>

theorem list_invoices_sortby_has_no_effect:
  "list_invoices skip limit sortby search pool = list_invoices skip limit None search pool \<and>
   map_sum (\<lambda>e. e) (\<lambda>resp. map in_id (resp_data resp))
     (fst (list_invoices 0 10 (Some ''id'') None scenario_db)) = Inr [7, 3] \<and>
   map_sum (\<lambda>e. e) (\<lambda>resp. map in_id (resp_data resp))
     (fst (list_invoices 0 10 (Some ''invoice_number'') None scenario_db)) = Inr [7, 3] \<and>
   map_sum (\<lambda>e. e) (\<lambda>resp. map in_id (resp_data resp))
     (fst (list_invoices 0 10 None None scenario_db)) = Inr [7, 3]"
proof -
  have "map_sum (\<lambda>e. e) (\<lambda>resp. map in_id (resp_data resp))
          (fst (list_invoices 0 10 s None scenario_db)) = Inr [7, 3]" for s
    by (simp add: list_invoices_page page_def in_bigint scenario_defs)
  then show ?thesis
    by (simp add: list_invoices_page)
qed

text \<open>
  Claim C6, as amended. For every \<open>invoice_id\<close> within the range of the integer type
  of the column \<open>invoices.id\<close>, \<open>read_invoice\<close> returns an invoice whose id is the
  requested one when the table has such a record; when it has none, it raises the 404
  error whose detail contains the decimal text of the requested id. Reading invoice
  999 in the scenario raises 404 with \<open>999\<close> in the detail.
\<close>

theorem read_invoice_found_or_404:
  assumes "in_int_range (invoice_id_type pool) invoice_id"
  shows "(row \<in> set (invoices pool) \<and> in_id row = invoice_id \<longrightarrow>
            (\<exists>r. fst (read_invoice invoice_id pool) = Inr r \<and> r \<in> set (invoices pool) \<and>
                 in_id r = invoice_id)) \<and>
         (invoice_id \<notin> in_id ` set (invoices pool) \<longrightarrow>
            fst (read_invoice invoice_id pool) =
              Inl (HTTPException 404
                    (''An invoice with an id of '' @ str_int invoice_id @ '' was not found.'')) \<and>
            contains (str_int invoice_id)
              (''An invoice with an id of '' @ str_int invoice_id @ '' was not found.'')) \<and>
         fst (read_invoice 999 scenario_db) =
           Inl (HTTPException 404 ''An invoice with an id of 999 was not found.'') \<and>
         contains ''999'' ''An invoice with an id of 999 was not found.''"
proof -
  have found: "\<exists>r. fst (read_invoice invoice_id pool) = Inr r \<and> r \<in> set (invoices pool) \<and>
                   in_id r = invoice_id"
    if "row \<in> set (invoices pool)" "in_id row = invoice_id"
  proof -
    from that obtain r where r: "find (\<lambda>row. in_id row = invoice_id) (invoices pool) = Some r"
      by (cases "find (\<lambda>row. in_id row = invoice_id) (invoices pool)") (auto simp: find_None_iff)
    then have "r \<in> set (invoices pool)" "in_id r = invoice_id"
      by (auto simp: find_Some_iff)
    with r assms show ?thesis
      by (simp add: read_invoice_def fetchrow_find)
  qed
  have missing: "fst (read_invoice invoice_id pool) =
        Inl (HTTPException 404
              (''An invoice with an id of '' @ str_int invoice_id @ '' was not found.''))"
    if "invoice_id \<notin> in_id ` set (invoices pool)"
  proof -
    from that have "find (\<lambda>row. in_id row = invoice_id) (invoices pool) = None"
      by (auto simp: find_None_iff)
    with assms show ?thesis
      by (simp add: read_invoice_def fetchrow_find)
  qed
  have detail: "contains (str_int invoice_id)
        (''An invoice with an id of '' @ str_int invoice_id @ '' was not found.'')"
    unfolding contains_iff by blast
  have "fst (read_invoice 999 scenario_db) =
     Inl (HTTPException 404 ''An invoice with an id of 999 was not found.'')"
    by code_simp
  moreover have "contains ''999'' ''An invoice with an id of 999 was not found.''"
    by code_simp
  ultimately show ?thesis
    using found missing detail by blast
qed

theorem read_invoice_found_or_404_witness:
  "in_int_range (invoice_id_type scenario_db) 7 \<and>
   in_int_range (invoice_id_type scenario_db) 999 \<and>
   invoice_7 \<in> set (invoices scenario_db) \<and> in_id invoice_7 = 7 \<and>
   (\<exists>r. fst (read_invoice 7 scenario_db) = Inr r \<and> r \<in> set (invoices scenario_db) \<and>
        in_id r = 7) \<and>
   999 \<notin> in_id ` set (invoices scenario_db) \<and>
   fst (read_invoice 999 scenario_db) =
     Inl (HTTPException 404 (''An invoice with an id of '' @ str_int 999 @ '' was not found.''))"
proof -
  have r: "in_int_range (invoice_id_type scenario_db) 7"
    "in_int_range (invoice_id_type scenario_db) 999"
    by (simp_all add: in_int_range_def scenario_defs)
  have h: "invoice_7 \<in> set (invoices scenario_db)" "in_id invoice_7 = 7"
    "999 \<notin> in_id ` set (invoices scenario_db)"
    by (simp_all add: scenario_defs)
  from read_invoice_found_or_404 [OF r(1), of invoice_7]
    read_invoice_found_or_404 [OF r(2), of invoice_7] r h
  show ?thesis by blast
qed

text \<open>
  Claim C6 as stated fails for an id outside the range of the column's integer type:
  no invoice of the scenario has the id \<open>2^63\<close>, and reading it raises the driver's
  \<open>DataError\<close>, not the 404 error.
\<close>

theorem read_invoice_out_of_range_counterexample:
  "9223372036854775808 \<notin> in_id ` set (invoices scenario_db) \<and>
   fst (read_invoice 9223372036854775808 scenario_db) =
     Inl (DataError ''invalid input for query argument $1 (value out of range)'')"
  by (simp add: read_invoice_def fetchrow_find in_int_range_def scenario_defs)

text \<open>
  Claim C7. For every ORM list function with a well-formed \<open>sortby\<close>
  \<open>"<column>:<direction>"\<close> whose column is not an attribute of the class, the call
  raises \<open>AttributeError\<close> for that column: the handler for the parse failure does not
  catch it, and the sort column is not silently ignored.
\<close>

theorem unknown_sort_column_raises:
  assumes "CHR '':'' \<notin> set column" "CHR '':'' \<notin> set direction"
  shows "(\<not> hasattr (ContractCompany models) column \<longrightarrow>
            get_companies models db skip limit (Some (column @ '':'' @ direction)) search =
              (Inl (AttributeError column), db)) \<and>
         (\<not> hasattr (Vendor models) column \<longrightarrow>
            get_vendors models db skip limit (Some (column @ '':'' @ direction)) search =
              (Inl (AttributeError column), db)) \<and>
         (\<not> hasattr (Sow models) column \<longrightarrow>
            get_sows models db skip limit (Some (column @ '':'' @ direction)) search =
              (Inl (AttributeError column), db)) \<and>
         (\<not> hasattr (Invoice models) column \<longrightarrow>
            get_invoices models db skip limit (Some (column @ '':'' @ direction)) search =
              (Inl (AttributeError column), db))"
  using listing_unknown_column [of "ContractCompany models" column direction, OF _ assms]
    listing_unknown_column [of "Vendor models" column direction, OF _ assms]
    listing_unknown_column [of "Sow models" column direction, OF _ assms]
    listing_unknown_column [of "Invoice models" column direction, OF _ assms]
  by (simp add: listing_eqs)

theorem unknown_sort_column_raises_witness:
  "CHR '':'' \<notin> set ''bogus'' \<and> CHR '':'' \<notin> set ''asc'' \<and>
   \<not> hasattr (ContractCompany scenario_models) ''bogus'' \<and>
   \<not> hasattr (Vendor scenario_models) ''bogus'' \<and>
   \<not> hasattr (Sow scenario_models) ''bogus'' \<and>
   \<not> hasattr (Invoice scenario_models) ''bogus'' \<and>
   get_companies scenario_models scenario_db 0 10 (Some (''bogus'' @ '':'' @ ''asc'')) None =
     (Inl (AttributeError ''bogus''), scenario_db) \<and>
   get_invoices scenario_models scenario_db 0 10 (Some (''bogus'' @ '':'' @ ''asc'')) None =
     (Inl (AttributeError ''bogus''), scenario_db)"
proof -
  have h: "CHR '':'' \<notin> set ''bogus''" "CHR '':'' \<notin> set ''asc''"
    by simp_all
  have a: "\<not> hasattr (ContractCompany scenario_models) ''bogus''"
    "\<not> hasattr (Vendor scenario_models) ''bogus''"
    "\<not> hasattr (Sow scenario_models) ''bogus''"
    "\<not> hasattr (Invoice scenario_models) ''bogus''"
    by (simp_all add: hasattr_def is_column_def ContractCompany_def Vendor_def Sow_def
        Invoice_def scenario_models_def)
  from unknown_sort_column_raises [OF h, of scenario_models scenario_db 0 10 None] a h
  show ?thesis by (simp only: simp_thms)
qed

text \<open>
  Claim C8. In every response of the list endpoint \<open>list_invoices\<close>, \<open>total\<close> is the number
  of items of \<open>data\<close> in that response (the size of the page, not of the collection), and
  \<open>skip\<close> and \<open>limit\<close> are the inputs unchanged; a response is returned whenever \<open>skip\<close>
  and \<open>limit\<close> are not negative and below \<open>2^63\<close> and \<open>sortby\<close> has no NUL character. In
  the scenario, with two invoices in the table, the page of limit 1 reports the total 1.
\<close>

theorem list_invoices_total_is_page_size:
  "(0 \<le> skip \<and> skip < 2 ^ 63 \<and> 0 \<le> limit \<and> limit < 2 ^ 63 \<and> nul_free sortby \<longrightarrow>
      (\<exists>resp. fst (list_invoices skip limit sortby search pool) = Inr resp)) \<and>
   (\<forall>resp. fst (list_invoices skip limit sortby search pool) = Inr resp \<longrightarrow>
      resp_total resp = int (length (resp_data resp)) \<and>
      resp_skip resp = skip \<and> resp_limit resp = limit) \<and>
   length (invoices scenario_db) = 2 \<and>
   map_sum (\<lambda>e. e) resp_total (fst (list_invoices 0 1 None None scenario_db)) = Inr 1"
proof -
  have "length (invoices scenario_db) = 2"
    by (simp add: scenario_defs)
  moreover have "map_sum (\<lambda>e. e) resp_total (fst (list_invoices 0 1 None None scenario_db)) = Inr 1"
    by (simp add: list_invoices_page page_def in_bigint scenario_defs)
  moreover have "\<exists>resp. fst (list_invoices skip limit sortby search pool) = Inr resp"
    if "0 \<le> skip" "skip < 2 ^ 63" "0 \<le> limit" "limit < 2 ^ 63"
    using that by (simp add: list_invoices_page page_Inr)
  moreover have "resp_total resp = int (length (resp_data resp)) \<and>
      resp_skip resp = skip \<and> resp_limit resp = limit"
    if "fst (list_invoices skip limit sortby search pool) = Inr resp" for resp
    using that by (auto simp: list_invoices_page split: sum.splits)
  ultimately show ?thesis by blast
qed

theorem list_invoices_total_is_page_size_witness:
  "(0::int) \<le> 0 \<and> (0::int) < 2 ^ 63 \<and> (0::int) \<le> 1 \<and> (1::int) < 2 ^ 63 \<and> nul_free None \<and>
   (\<exists>resp. fst (list_invoices 0 1 None None scenario_db) = Inr resp \<and>
      resp_total resp = int (length (resp_data resp)) \<and>
      resp_skip resp = 0 \<and> resp_limit resp = 1)"
  using list_invoices_total_is_page_size [of 0 1 None None scenario_db]
  by (auto simp: nul_free_def)

text \<open>
  Claim C9. Every operation of the CRUD module and of the invoice router is read-only:
  the database after the call is the database before it.
\<close>

theorem operations_are_read_only:
  "snd (get_company models db company_id) = db \<and>
   snd (get_companies models db skip limit sortby search) = db \<and>
   snd (get_vendor models db vendor_id) = db \<and>
   snd (get_vendors models db skip limit sortby search) = db \<and>
   snd (get_sow models db sow_id) = db \<and>
   snd (get_sows models db skip limit sortby search) = db \<and>
   snd (get_invoice models db invoice_id) = db \<and>
   snd (get_invoices models db skip limit sortby search) = db \<and>
   snd (list_invoices skip limit sortby search db) = db \<and>
   snd (read_invoice invoice_id db) = db"
proof -
  have first: "snd (query_first q db) = db" for q :: "'r query"
    by (simp add: query_first_def split: sum.splits)
  have "snd (read_invoice invoice_id db) = db"
    by (simp add: read_invoice_def fetchrow_find split: option.splits)
  then show ?thesis
    by (simp add: listing_eqs list_invoices_page first get_company_def get_vendor_def
        get_sow_def get_invoice_def)
qed

text \<open>
  Claim C10. For every ORM list function the empty string as \<open>search\<close> or as \<open>sortby\<close>
  behaves as \<open>None\<close>: the presence checks test truthiness, so the call returns what the
  call with that argument omitted returns.
\<close>

theorem empty_string_is_none:
  "get_companies models db skip limit (Some '''') search =
   get_companies models db skip limit None search \<and>
   get_companies models db skip limit sortby (Some '''') =
   get_companies models db skip limit sortby None \<and>
   get_vendors models db skip limit (Some '''') search =
   get_vendors models db skip limit None search \<and>
   get_vendors models db skip limit sortby (Some '''') =
   get_vendors models db skip limit sortby None \<and>
   get_sows models db skip limit (Some '''') search =
   get_sows models db skip limit None search \<and>
   get_sows models db skip limit sortby (Some '''') =
   get_sows models db skip limit sortby None \<and>
   get_invoices models db skip limit (Some '''') search =
   get_invoices models db skip limit None search \<and>
   get_invoices models db skip limit sortby (Some '''') =
   get_invoices models db skip limit sortby None"
  by (simp add: get_companies_def get_vendors_def get_sows_def get_invoices_def)

end
